theory Spec2Isabelle
  imports Main "HOL-Library.AList"
begin

section \<open>Python values used by the two scripts\<close>

subsection \<open>Strings\<close>

text \<open>
  A Python \<open>str\<close> is held as the bytes of its UTF-8 encoding. The scripts never index or
  measure a string that holds a character outside ASCII, they only concatenate and print
  them, so the byte view and the code-point view agree on everything they compute. The
  characters outside ASCII that occur in the literals of \<open>scripts/download_nlp_models.py\<close>
  are named here once.
\<close>

definition cross_mark :: string where
  "cross_mark = [CHR 0xE2, CHR 0x9D, CHR 0x8C]"

definition check_mark :: string where
  "check_mark = [CHR 0xE2, CHR 0x9C, CHR 0x85]"

definition inbox_tray :: string where
  "inbox_tray = [CHR 0xF0, CHR 0x9F, CHR 0x93, CHR 0xA5]"

definition rocket :: string where
  "rocket = [CHR 0xF0, CHR 0x9F, CHR 0x9A, CHR 0x80]"

definition magnifier :: string where
  "magnifier = [CHR 0xF0, CHR 0x9F, CHR 0x94, CHR 0x8D]"

definition bar_chart :: string where
  "bar_chart = [CHR 0xF0, CHR 0x9F, CHR 0x93, CHR 0x8A]"

definition clipboard :: string where
  "clipboard = [CHR 0xF0, CHR 0x9F, CHR 0x93, CHR 0x8B]"

definition warning_sign :: string where
  "warning_sign = [CHR 0xE2, CHR 0x9A, CHR 0xA0]"

definition variation_16 :: string where
  "variation_16 = [CHR 0xEF, CHR 0xB8, CHR 0x8F]"

definition light_bulb :: string where
  "light_bulb = [CHR 0xF0, CHR 0x9F, CHR 0x92, CHR 0xA1]"

definition a_acute :: string where
  "a_acute = [CHR 0xC3, CHR 0xA1]"

definition a_tilde :: string where
  "a_tilde = [CHR 0xC3, CHR 0xA3]"

definition e_circ :: string where
  "e_circ = [CHR 0xC3, CHR 0xAA]"

definition i_acute :: string where
  "i_acute = [CHR 0xC3, CHR 0xAD]"

definition o_acute :: string where
  "o_acute = [CHR 0xC3, CHR 0xB3]"

text \<open>\<open>sep.join(xs)\<close>.\<close>

fun join :: "string \<Rightarrow> string list \<Rightarrow> string" where
  "join sep [] = []"
| "join sep [x] = x"
| "join sep (x # y # ys) = x @ sep @ join sep (y # ys)"

text \<open>\<open>s.startswith(p)\<close>.\<close>

definition startswith :: "string \<Rightarrow> string \<Rightarrow> bool" where
  "startswith s p = (take (length p) s = p)"

text \<open>\<open>str(n)\<close> for an integer.\<close>

definition digit :: "nat \<Rightarrow> char" where
  "digit d = ''0123456789'' ! d"

fun str_nat :: "nat \<Rightarrow> string" where
  "str_nat n = (if n < 10 then [digit n] else str_nat (n div 10) @ [digit (n mod 10)])"

declare str_nat.simps [simp del]

definition str_int :: "int \<Rightarrow> string" where
  "str_int i = (if i < 0 then ''-'' @ str_nat (nat (- i)) else str_nat (nat i))"

subsection \<open>The size line: \<open>st_size / (1024 * 1024)\<close> printed with \<open>:.1f\<close>\<close>

text \<open>
  Python divides the two integers into the nearest double and \<open>format\<close> prints the double
  rounded to one decimal, both with ties to even. The divisor is a power of two, so the
  quotient is the size rounded to 53 significant bits, over \<open>2 ^ 20\<close>, and the whole
  computation can be written on integers.
\<close>

definition round_half_even :: "nat \<Rightarrow> nat \<Rightarrow> nat" where
  "round_half_even n d =
     (let q = n div d; r = n mod d
      in if 2 * r < d then q
         else if d < 2 * r then q + 1
         else if even q then q else q + 1)"

fun bit_length :: "nat \<Rightarrow> nat" where
  "bit_length n = (if n = 0 then 0 else Suc (bit_length (n div 2)))"

declare bit_length.simps [simp del]

definition to_double :: "nat \<Rightarrow> nat" where
  "to_double n =
     (if bit_length n \<le> 53 then n
      else (let e = bit_length n - 53 in round_half_even n (2 ^ e) * 2 ^ e))"

definition format_mb :: "nat \<Rightarrow> string" where
  "format_mb st_size =
     (let tenths = round_half_even (10 * to_double st_size) (1024 * 1024)
      in str_nat (tenths div 10) @ ''.'' @ str_nat (tenths mod 10))"

subsection \<open>Exceptions\<close>

text \<open>
  The exception classes the scripts raise, catch or can meet. \<open>OSError\<close> carries the
  subclass that \<open>os.mkdir\<close> raised and the path it was called with, \<open>KeyError\<close> the
  key that a dictionary did not have; \<open>Exception\<close> stands
  for an instance of any other subclass of Python's \<open>Exception\<close> and carries its
  \<open>str()\<close>; \<open>SystemExit\<close> is what \<open>sys.exit\<close> raises and is not a subclass of
  \<open>Exception\<close>.
\<close>

type_synonym path = "string list"

datatype os_error = FileExistsError | FileNotFoundError | NotADirectoryError

datatype exn =
    ImportError string
  | OSError os_error path
  | KeyError string
  | Exception string
  | SystemExit int

fun isinstance_Exception :: "exn \<Rightarrow> bool" where
  "isinstance_Exception (SystemExit code) = False"
| "isinstance_Exception e = True"

fun isinstance_ImportError :: "exn \<Rightarrow> bool" where
  "isinstance_ImportError (ImportError msg) = True"
| "isinstance_ImportError e = False"

section \<open>The file system below the working directory\<close>

text \<open>
  A directory tree: a file with its size in bytes, or a directory with its entries. A
  path is the list of its components, relative to the working directory, which is the
  root of the tree. \<open>Path\<close> splits a string at the slashes as \<open>pathlib.Path\<close> does for
  a relative path without \<open>..\<close>.
\<close>

datatype node = File nat | Dir "(string \<times> node) list"

fun split_slash :: "string \<Rightarrow> string \<Rightarrow> string list" where
  "split_slash [] cur = [cur]"
| "split_slash (c # cs) cur =
     (if c = CHR ''/'' then cur # split_slash cs [] else split_slash cs (cur @ [c]))"

definition Path :: "string \<Rightarrow> path" where
  "Path s = filter (\<lambda>c. c \<noteq> [] \<and> c \<noteq> ''.'') (split_slash s [])"

fun lookup :: "node \<Rightarrow> path \<Rightarrow> node option" where
  "lookup n [] = Some n"
| "lookup (File s) (c # cs) = None"
| "lookup (Dir es) (c # cs) =
     (case map_of es c of None \<Rightarrow> None | Some n \<Rightarrow> lookup n cs)"

text \<open>\<open>Path.exists()\<close> and \<open>Path.is_dir()\<close>.\<close>

definition exists_path :: "node \<Rightarrow> path \<Rightarrow> bool" where
  "exists_path root p = (lookup root p \<noteq> None)"

definition is_dir :: "node \<Rightarrow> path \<Rightarrow> bool" where
  "is_dir root p = (case lookup root p of Some (Dir es) \<Rightarrow> True | _ \<Rightarrow> False)"

text \<open>
  \<open>Path.stat().st_size\<close> of a path that exists. What the platform reports for a
  directory is a parameter.
\<close>

definition st_size :: "nat \<Rightarrow> node \<Rightarrow> path \<Rightarrow> nat" where
  "st_size dir_size root p =
     (case lookup root p of Some (File s) \<Rightarrow> s | _ \<Rightarrow> dir_size)"

text \<open>
  \<open>os.mkdir(p)\<close>: the path must not exist, its parent must exist and be a directory.
  Permissions are not modelled.
\<close>

fun os_mkdir :: "node \<Rightarrow> path \<Rightarrow> os_error + node" where
  "os_mkdir n [] = Inl FileExistsError"
| "os_mkdir (File s) (c # cs) = Inl NotADirectoryError"
| "os_mkdir (Dir es) [c] =
     (case map_of es c of
        None \<Rightarrow> Inr (Dir (AList.update c (Dir []) es))
      | Some n \<Rightarrow> Inl FileExistsError)"
| "os_mkdir (Dir es) (c # c' # cs) =
     (case map_of es c of
        None \<Rightarrow> Inl FileNotFoundError
      | Some n \<Rightarrow>
          (case os_mkdir n (c' # cs) of
             Inl e \<Rightarrow> Inl e
           | Inr n' \<Rightarrow> Inr (Dir (AList.update c n' es))))"

text \<open>
  \<open>Path.mkdir(parents, exist_ok)\<close>, as pathlib writes it:
  \<^verbatim>\<open>
  try:
      os.mkdir(self, mode)
  except FileNotFoundError:
      if not parents or self.parent == self:
          raise
      self.parent.mkdir(parents=True, exist_ok=True)
      self.mkdir(mode, parents=False, exist_ok=exist_ok)
  except OSError:
      if not exist_ok or not self.is_dir():
          raise
  \<close>
\<close>

function path_mkdir :: "bool \<Rightarrow> bool \<Rightarrow> node \<Rightarrow> path \<Rightarrow> (os_error \<times> path) + node" where
  "path_mkdir parents exist_ok root p =
     (case os_mkdir root p of
        Inr root' \<Rightarrow> Inr root'
      | Inl FileNotFoundError \<Rightarrow>
          (if \<not> parents \<or> p = [] then Inl (FileNotFoundError, p)
           else (case path_mkdir True True root (butlast p) of
                   Inl e \<Rightarrow> Inl e
                 | Inr root' \<Rightarrow> path_mkdir False exist_ok root' p))
      | Inl e \<Rightarrow>
          (if \<not> exist_ok \<or> \<not> is_dir root p then Inl (e, p) else Inr root))"
  by pat_completeness auto
termination
  by (relation "measure (\<lambda>(parents, exist_ok, root, p).
        2 * length p + (if parents then 1 else 0))") auto

declare path_mkdir.simps [simp del]

section \<open>The world the download script runs in\<close>

text \<open>
  The state the script reads and writes: the directory tree, everything outside the
  process that a library call can read or change (network, caches), the lines printed
  so far (one entry for each call of \<open>print\<close>, oldest first) and the dictionary
  \<open>results\<close> of \<open>main\<close>, kept in the state so that it can still be read after
  \<open>sys.exit\<close>. A Python dictionary keeps its keys in order of first insertion, which is
  what \<open>AList.update\<close> does on an association list. The field \<open>calls\<close> is not in the
  source: \<open>main\<close> logs there every call it makes of one of the two download functions
  (\<open>call\<close> below), so that the number of calls can be stated.
\<close>

record 'x world =
  fs :: node
  outside :: 'x
  console :: "string list"
  results :: "(string \<times> bool) list"
  calls :: "string list"

text \<open>
  A statement or expression of the script: it runs in a world and either raises or
  returns a value, leaving a new world either way.
\<close>

type_synonym ('x, 'a) prog = "'x world \<Rightarrow> (exn + 'a) \<times> 'x world"

definition returnE :: "'a \<Rightarrow> ('x, 'a) prog" where
  "returnE v w = (Inr v, w)"

definition raiseE :: "exn \<Rightarrow> ('x, 'a) prog" where
  "raiseE e w = (Inl e, w)"

definition bindE :: "('x, 'a) prog \<Rightarrow> ('a \<Rightarrow> ('x, 'b) prog) \<Rightarrow> ('x, 'b) prog" where
  "bindE m f w = (case m w of (Inl e, w') \<Rightarrow> (Inl e, w') | (Inr v, w') \<Rightarrow> f v w')"

definition thenE :: "('x, 'a) prog \<Rightarrow> ('x, 'b) prog \<Rightarrow> ('x, 'b) prog" where
  "thenE m k = bindE m (\<lambda>v. k)"

text \<open>A block of statements, run in order up to the first one that raises.\<close>

fun block :: "('x, unit) prog list \<Rightarrow> ('x, unit) prog" where
  "block [] = returnE ()"
| "block (stmt # stmts) = thenE stmt (block stmts)"

declare block.simps [simp del]

text \<open>
  \<open>try: body except C as e: handler e\<close>, where \<open>catches\<close> decides
  \<open>isinstance(e, C)\<close>; an exception of another class goes on to the caller.
\<close>

definition try_except ::
  "('x, 'a) prog \<Rightarrow> (exn \<Rightarrow> bool) \<Rightarrow> (exn \<Rightarrow> ('x, 'a) prog) \<Rightarrow> ('x, 'a) prog" where
  "try_except body catches handler w =
     (case body w of
        (Inl e, w') \<Rightarrow> if catches e then handler e w' else (Inl e, w')
      | (Inr v, w') \<Rightarrow> (Inr v, w'))"

definition print :: "string \<Rightarrow> ('x, unit) prog" where
  "print line w = (Inr (), w\<lparr>console := console w @ [line]\<rparr>)"

definition sys_exit :: "int \<Rightarrow> ('x, 'a) prog" where
  "sys_exit code = raiseE (SystemExit code)"

definition set_result :: "string \<Rightarrow> bool \<Rightarrow> ('x, unit) prog" where
  "set_result k v w = (Inr (), w\<lparr>results := AList.update k v (results w)\<rparr>)"

definition get_result :: "string \<Rightarrow> ('x, bool) prog" where
  "get_result k w =
     (case map_of (results w) k of
        None \<Rightarrow> (Inl (KeyError k), w)
      | Some v \<Rightarrow> (Inr v, w))"

definition call :: "string \<Rightarrow> ('x, 'a) prog \<Rightarrow> ('x, 'a) prog" where
  "call name body w = body (w\<lparr>calls := calls w @ [name]\<rparr>)"

text \<open>
  The exit status of the process, from how \<open>main\<close> ends: a normal return ends the script
  with status 0, \<open>sys.exit(code)\<close> with \<open>code\<close>, and the interpreter turns any other
  exception that nobody caught into status 1.
\<close>

fun exit_status :: "exn + unit \<Rightarrow> int" where
  "exit_status (Inr u) = 0"
| "exit_status (Inl (SystemExit code)) = code"
| "exit_status (Inl e) = 1"

subsection \<open>The libraries and the platform\<close>

text \<open>
  What the script calls and does not define. A call into \<open>transformers\<close> or
  \<open>optimum\<close> reads and changes the world outside and the directory tree, and either
  returns a value or raises an instance of \<open>Exception\<close>, of which only the \<open>str()\<close> is
  ever used (\<open>Inl\<close> of that string). Signals that are not errors (\<open>KeyboardInterrupt\<close>,
  a library calling \<open>sys.exit\<close>) are outside this model. An import either succeeds
  (\<open>None\<close>) or raises \<open>ImportError\<close> with a message; it leaves the directory tree below the
  working directory alone.
\<close>

type_synonym ('x, 'a) ext = "'x \<times> node \<Rightarrow> (string + 'a) \<times> 'x \<times> node"

record ('x, 't, 'm) library =
  import_error :: "string \<Rightarrow> string option"
  from_import_error :: "string \<Rightarrow> string \<Rightarrow> string option"
  AutoTokenizer_from_pretrained :: "string \<Rightarrow> ('x, 't) ext"
  tokenizer_save_pretrained :: "'t \<Rightarrow> string \<Rightarrow> ('x, unit) ext"
  ORTModelForTokenClassification_from_pretrained :: "string \<Rightarrow> ('x, 'm) ext"
  ORTModelForSequenceClassification_from_pretrained :: "string \<Rightarrow> bool \<Rightarrow> ('x, 'm) ext"
  model_save_pretrained :: "'m \<Rightarrow> string \<Rightarrow> ('x, unit) ext"
  dir_st_size :: nat
  os_error_str :: "os_error \<Rightarrow> path \<Rightarrow> string"

definition extcall :: "('x, 'a) ext \<Rightarrow> ('x, 'a) prog" where
  "extcall f w =
     (case f (outside w, fs w) of
        (Inl msg, x', root') \<Rightarrow> (Inl (Exception msg), w\<lparr>fs := root', outside := x'\<rparr>)
      | (Inr v, x', root') \<Rightarrow> (Inr v, w\<lparr>fs := root', outside := x'\<rparr>))"

text \<open>\<open>__import__(package)\<close> and \<open>from module import name\<close>.\<close>

definition py_import :: "('x, 't, 'm) library \<Rightarrow> string \<Rightarrow> ('x, unit) prog" where
  "py_import lib package =
     (case import_error lib package of
        None \<Rightarrow> returnE ()
      | Some msg \<Rightarrow> raiseE (ImportError msg))"

definition from_import :: "('x, 't, 'm) library \<Rightarrow> string \<Rightarrow> string \<Rightarrow> ('x, unit) prog" where
  "from_import lib module name =
     (case from_import_error lib module name of
        None \<Rightarrow> returnE ()
      | Some msg \<Rightarrow> raiseE (ImportError msg))"

text \<open>\<open>Path(p).mkdir(parents=True, exist_ok=True)\<close> as a statement.\<close>

definition Path_mkdir :: "bool \<Rightarrow> bool \<Rightarrow> path \<Rightarrow> ('x, unit) prog" where
  "Path_mkdir parents exist_ok p w =
     (case path_mkdir parents exist_ok (fs w) p of
        Inl (e, q) \<Rightarrow> (Inl (OSError e q), w)
      | Inr root' \<Rightarrow> (Inr (), w\<lparr>fs := root'\<rparr>))"

text \<open>\<open>str(e)\<close>.\<close>

fun str_exn :: "('x, 't, 'm) library \<Rightarrow> exn \<Rightarrow> string" where
  "str_exn lib (ImportError msg) = msg"
| "str_exn lib (OSError e p) = os_error_str lib e p"
| "str_exn lib (KeyError k) = [CHR 0x27] @ k @ [CHR 0x27]"
| "str_exn lib (Exception msg) = msg"
| "str_exn lib (SystemExit code) = str_int code"

section \<open>\<open>scripts/download_nlp_models.py\<close>\<close>

subsection \<open>\<open>check_dependencies\<close>\<close>

definition required :: "string list" where
  "required = [''torch'', ''transformers'', ''optimum'']"

text \<open>The \<open>for\<close> loop over \<open>required\<close>, with the list \<open>missing\<close> it appends to.\<close>

fun missing_loop ::
  "('x, 't, 'm) library \<Rightarrow> string list \<Rightarrow> string list \<Rightarrow> ('x, string list) prog" where
  "missing_loop lib [] missing = returnE missing"
| "missing_loop lib (package # rest) missing =
     bindE (try_except (thenE (py_import lib package) (returnE missing))
              isinstance_ImportError
              (\<lambda>e. returnE (missing @ [package])))
       (\<lambda>missing'. missing_loop lib rest missing')"

definition check_dependencies :: "('x, 't, 'm) library \<Rightarrow> ('x, unit) prog" where
  "check_dependencies lib =
     bindE (missing_loop lib required []) (\<lambda>missing.
       if missing \<noteq> [] then
         block [
           print (cross_mark @ '' Pacotes faltando: '' @ join '', '' missing),
           print (''\<newline>'' @ ''Instale com:''),
           print (''  pip install '' @ join '' '' missing @ '' onnxruntime''),
           sys_exit 1]
       else returnE ())"

subsection \<open>\<open>download_and_convert_bert_ner\<close>\<close>

text \<open>
  The function in the two parts its comments divide it into: everything up to
  \<open>model.save_pretrained\<close> (the imports, the directory, the four library calls), and the
  check of the files under \<open># Verificar arquivos\<close>.
\<close>

definition bert_ner_fetch :: "('x, 't, 'm) library \<Rightarrow> ('x, unit) prog" where
  "bert_ner_fetch lib =
     (let model_name = ''protectai/bert-base-NER-onnx'';
          output_dir = ''models/bert-base-ner''
      in block [
           from_import lib ''transformers'' ''AutoTokenizer'',
           from_import lib ''optimum.onnxruntime'' ''ORTModelForTokenClassification'',
           print (inbox_tray @ '' Baixando BERT NER (ONNX)...''),
           Path_mkdir True True (Path output_dir),
           print ''   Baixando tokenizer...'',
           bindE (extcall (AutoTokenizer_from_pretrained lib ''dslim/bert-base-NER''))
             (\<lambda>tokenizer. extcall (tokenizer_save_pretrained lib tokenizer output_dir)),
           print (''   Baixando modelo ONNX (j'' @ a_acute @ '' convertido)...''),
           bindE (extcall (ORTModelForTokenClassification_from_pretrained lib model_name))
             (\<lambda>model. extcall (model_save_pretrained lib model output_dir))])"

definition bert_ner_verify :: "('x, 't, 'm) library \<Rightarrow> ('x, bool) prog" where
  "bert_ner_verify lib w =
     (let output_dir = ''models/bert-base-ner'';
          onnx_file = Path output_dir @ [''model.onnx''];
          vocab_file = Path output_dir @ [''vocab.txt'']
      in if exists_path (fs w) onnx_file then
           (let size = st_size (dir_st_size lib) (fs w) onnx_file
            in thenE
                 (block [
                    print (check_mark @ '' BERT NER salvo em: '' @ output_dir @ ''/''),
                    print (''   Arquivo ONNX: '' @ format_mb size @ '' MB''),
                    print (''   Vocabul'' @ a_acute @ ''rio: '' @
                           (if exists_path (fs w) vocab_file then check_mark else cross_mark))])
                 (returnE True) w)
         else
           thenE (print (cross_mark @ '' Erro: arquivo model.onnx n'' @ a_tilde @ ''o foi criado''))
             (returnE False) w)"

definition download_and_convert_bert_ner :: "('x, 't, 'm) library \<Rightarrow> ('x, bool) prog" where
  "download_and_convert_bert_ner lib = thenE (bert_ner_fetch lib) (bert_ner_verify lib)"

subsection \<open>\<open>download_and_convert_distilbert_sentiment\<close>\<close>

definition distilbert_fetch :: "('x, 't, 'm) library \<Rightarrow> ('x, unit) prog" where
  "distilbert_fetch lib =
     (let model_name = ''lxyuan/distilbert-base-multilingual-cased-sentiments-student'';
          output_dir = ''models/distilbert-sentiment''
      in block [
           from_import lib ''transformers'' ''AutoTokenizer'',
           from_import lib ''optimum.onnxruntime'' ''ORTModelForSequenceClassification'',
           print (''\<newline>'' @ inbox_tray @ '' Baixando DistilBERT Sentiment Multilingual...''),
           Path_mkdir True True (Path output_dir),
           print ''   Baixando tokenizer...'',
           bindE (extcall (AutoTokenizer_from_pretrained lib model_name))
             (\<lambda>tokenizer. extcall (tokenizer_save_pretrained lib tokenizer output_dir)),
           print ''   Convertendo para ONNX (pode demorar alguns minutos)...'',
           bindE (extcall (ORTModelForSequenceClassification_from_pretrained lib model_name True))
             (\<lambda>model. extcall (model_save_pretrained lib model output_dir))])"

definition distilbert_verify :: "('x, 't, 'm) library \<Rightarrow> ('x, bool) prog" where
  "distilbert_verify lib w =
     (let output_dir = ''models/distilbert-sentiment'';
          onnx_file = Path output_dir @ [''model.onnx''];
          vocab_file = Path output_dir @ [''vocab.txt'']
      in if exists_path (fs w) onnx_file then
           (let size = st_size (dir_st_size lib) (fs w) onnx_file
            in thenE
                 (block [
                    print (check_mark @ '' DistilBERT Sentiment salvo em: '' @ output_dir @ ''/''),
                    print (''   Arquivo ONNX: '' @ format_mb size @ '' MB''),
                    print (''   Vocabul'' @ a_acute @ ''rio: '' @
                           (if exists_path (fs w) vocab_file then check_mark else cross_mark))])
                 (returnE True) w)
         else
           thenE (print (cross_mark @ '' Erro: arquivo model.onnx n'' @ a_tilde @ ''o foi criado''))
             (returnE False) w)"

definition download_and_convert_distilbert_sentiment ::
  "('x, 't, 'm) library \<Rightarrow> ('x, bool) prog" where
  "download_and_convert_distilbert_sentiment lib =
     thenE (distilbert_fetch lib) (distilbert_verify lib)"

subsection \<open>\<open>main\<close>\<close>

text \<open>
  \<open>main\<close> in the three parts its comments divide it into: the banner and the
  dependency check, the two downloads, and the summary (\<open># Resumo\<close>).
\<close>

definition main_dependencies :: "('x, 't, 'm) library \<Rightarrow> ('x, unit) prog" where
  "main_dependencies lib =
     block [
       print (replicate 70 CHR ''=''),
       print (rocket @ '' Download e Convers'' @ a_tilde @ ''o de Modelos NLP para NEXS-MCP''),
       print (replicate 70 CHR ''=''),
       print [],
       print (magnifier @ '' Verificando depend'' @ e_circ @ ''ncias...''),
       check_dependencies lib,
       print (check_mark @ '' Todas as depend'' @ e_circ @ ''ncias instaladas'' @ ''\<newline>'')]"

definition main_downloads :: "('x, 't, 'm) library \<Rightarrow> ('x, unit) prog" where
  "main_downloads lib =
     block [
       (\<lambda>w. (Inr (), w\<lparr>results := []\<rparr>)),
       try_except
         (bindE (call ''download_and_convert_bert_ner'' (download_and_convert_bert_ner lib))
            (set_result ''bert_ner''))
         isinstance_Exception
         (\<lambda>e. block [
            print (cross_mark @ '' Erro ao processar BERT NER: '' @ str_exn lib e),
            set_result ''bert_ner'' False]),
       try_except
         (bindE (call ''download_and_convert_distilbert_sentiment''
                   (download_and_convert_distilbert_sentiment lib))
            (set_result ''distilbert''))
         isinstance_Exception
         (\<lambda>e. block [
            print (cross_mark @ '' Erro ao processar DistilBERT Sentiment: '' @ str_exn lib e),
            set_result ''distilbert'' False])]"

definition main_summary :: "('x, unit) prog" where
  "main_summary =
     block [
       print (''\<newline>'' @ replicate 70 CHR ''=''),
       print (bar_chart @ '' RESUMO''),
       print (replicate 70 CHR ''=''),
       bindE (get_result ''bert_ner'') (\<lambda>r.
         print (''BERT NER:              '' @
                (if r then check_mark @ '' Sucesso'' else cross_mark @ '' Falhou''))),
       bindE (get_result ''distilbert'') (\<lambda>r.
         print (''DistilBERT Sentiment:  '' @
                (if r then check_mark @ '' Sucesso'' else cross_mark @ '' Falhou''))),
       print [],
       (\<lambda>w.
          if list_all id (map snd (results w)) then
            block [
              print (check_mark @ '' Download e convers'' @ a_tilde @ ''o conclu'' @ i_acute @
                     ''dos com sucesso!''),
              print [],
              print (clipboard @ '' Pr'' @ o_acute @ ''ximos passos:''),
              print [],
              print ''1. Verifique os modelos:'',
              print ''   ls -lh models/bert-base-ner/'',
              print ''   ls -lh models/distilbert-sentiment/'',
              print [],
              print ''2. Configure o .env:'',
              print ''   NEXS_NLP_ENTITY_EXTRACTION_ENABLED=true'',
              print ''   NEXS_NLP_SENTIMENT_ENABLED=true'',
              print [],
              print ''3. Compile com suporte ONNX:'',
              print ''   make build-onnx'',
              print [],
              print ''4. Execute o NEXS-MCP:'',
              print ''   ./bin/nexs-mcp'',
              print []] w
          else
            block [
              print (warning_sign @ variation_16 @ ''  Alguns modelos falharam no download.''),
              print ''   Consulte os logs acima para detalhes.'',
              print [],
              print (light_bulb @ '' Dica: Tente executar novamente ou consulte:''),
              print ''   docs/DOWNLOAD_NLP_MODELS.md'',
              sys_exit 1] w)]"

definition main :: "('x, 't, 'm) library \<Rightarrow> ('x, unit) prog" where
  "main lib = block [main_dependencies lib, main_downloads lib, main_summary]"

section \<open>\<open>examples/integration/python_client.py\<close>\<close>

text \<open>
  The values the client puts into a request: JSON, with a Python \<open>dict\<close> as an
  association list in insertion order. The client object has the two attributes that
  \<open>__init__\<close> sets. The methods \<open>_next_id\<close> and \<open>_send_request\<close> lose their leading
  underscore; each takes the object and returns it updated next to its result.
\<close>

datatype json =
    JNull
  | JBool bool
  | JInt int
  | JStr string
  | JList "json list"
  | JObj "(string \<times> json) list"

type_synonym py_dict = "(string \<times> json) list"

record NexsMCPClient =
  server_path :: string
  request_id :: int

definition init_client :: "string \<Rightarrow> NexsMCPClient" where
  "init_client path = \<lparr> server_path = path, request_id = 0 \<rparr>"

definition next_id :: "NexsMCPClient \<Rightarrow> int \<times> NexsMCPClient" where
  "next_id self =
     (let self' = self\<lparr>request_id := request_id self + 1\<rparr>
      in (request_id self', self'))"

text \<open>\<open>params or {}\<close>: \<open>None\<close> and the empty dictionary are both false.\<close>

definition or_empty :: "py_dict option \<Rightarrow> py_dict" where
  "or_empty params = (case params of None \<Rightarrow> [] | Some d \<Rightarrow> if d = [] then [] else d)"

definition send_request ::
  "NexsMCPClient \<Rightarrow> string \<Rightarrow> py_dict option \<Rightarrow> py_dict \<times> NexsMCPClient" where
  "send_request self method params =
     (case next_id self of (rid, self') \<Rightarrow>
        (let request = [(''jsonrpc'', JStr ''2.0''),
                        (''id'', JInt rid),
                        (''method'', JStr method),
                        (''params'', JObj (or_empty params))]
         in if startswith method ''notifications/''
            then (AList.delete ''id'' request, self')
            else (request, self')))"

definition initialize :: "NexsMCPClient \<Rightarrow> py_dict list \<times> NexsMCPClient" where
  "initialize self =
     (case send_request self ''initialize''
             (Some [(''protocolVersion'', JStr ''2024-11-05''),
                    (''capabilities'', JObj []),
                    (''clientInfo'', JObj [(''name'', JStr ''python-example''),
                                           (''version'', JStr ''1.0.0'')])])
      of (init_request, self') \<Rightarrow>
        (let initialized_notification =
               [(''jsonrpc'', JStr ''2.0''), (''method'', JStr ''notifications/initialized'')]
         in ([init_request, initialized_notification], self')))"

definition call_tool :: "NexsMCPClient \<Rightarrow> string \<Rightarrow> py_dict \<Rightarrow> py_dict \<times> NexsMCPClient" where
  "call_tool self tool_name arguments =
     send_request self ''tools/call''
       (Some [(''name'', JStr tool_name), (''arguments'', JObj arguments)])"

definition list_tools :: "NexsMCPClient \<Rightarrow> py_dict \<times> NexsMCPClient" where
  "list_tools self = send_request self ''tools/list'' None"

text \<open>
  Not in the source: a client that builds one request after the other, for statements
  about successive requests, and the \<open>id\<close> of a request that has one.
\<close>

fun send_requests ::
  "NexsMCPClient \<Rightarrow> (string \<times> py_dict option) list \<Rightarrow> py_dict list \<times> NexsMCPClient" where
  "send_requests self [] = ([], self)"
| "send_requests self ((method, params) # rest) =
     (case send_request self method params of (request, self') \<Rightarrow>
        (case send_requests self' rest of (requests, self'') \<Rightarrow>
           (request # requests, self'')))"

definition id_of :: "py_dict \<Rightarrow> int option" where
  "id_of request = (case map_of request ''id'' of Some (JInt i) \<Rightarrow> Some i | _ \<Rightarrow> None)"

definition ids_of :: "py_dict list \<Rightarrow> int list" where
  "ids_of requests = List.map_filter id_of requests"

section \<open>Statements that only touch files, the outside and the console\<close>

text \<open>
  A notion for the proofs, not in the source: a statement is \<open>framed\<close> when what it
  returns or raises, and what it does to the directory tree and to the world outside, is
  a function of these two alone; it only appends lines to the console, leaves \<open>results\<close>
  and \<open>calls\<close> as they are, and raises nothing but instances of \<open>Exception\<close>.
\<close>

definition framed :: "('x, 'a) prog \<Rightarrow> bool" where
  "framed m =
     (\<exists>F. (\<forall>w. m w =
              (case F (fs w) (outside w) of
                 (r, root', x', ls) \<Rightarrow>
                   (r, w\<lparr>fs := root', outside := x', console := console w @ ls\<rparr>)))
        \<and> (\<forall>root x e root' x' ls.
              F root x = (Inl e, root', x', ls) \<longrightarrow> isinstance_Exception e))"

section \<open>Test doubles\<close>

text \<open>
  A library that does as it is told, for running the script on concrete inputs: the
  packages in \<open>missing\<close> cannot be imported; \<open>AutoTokenizer.from_pretrained name\<close> raises
  when \<open>fails name\<close> gives a message; saving a tokenizer writes \<open>vocab.txt\<close> when \<open>vocab\<close>
  is set; saving a model into \<open>dir\<close> writes a \<open>model.onnx\<close> of \<open>onnx_size dir\<close> bytes, or
  nothing at all when that is \<open>None\<close>.
\<close>

fun write_file :: "node \<Rightarrow> path \<Rightarrow> nat \<Rightarrow> node" where
  "write_file n [] s = n"
| "write_file (File k) (c # cs) s = File k"
| "write_file (Dir es) [c] s = Dir (AList.update c (File s) es)"
| "write_file (Dir es) (c # c' # cs) s =
     (case map_of es c of
        None \<Rightarrow> Dir es
      | Some n \<Rightarrow> Dir (AList.update c (write_file n (c' # cs) s) es))"

definition fake_library ::
  "string list \<Rightarrow> (string \<Rightarrow> string option) \<Rightarrow> (string \<Rightarrow> nat option) \<Rightarrow> bool \<Rightarrow>
   (unit, unit, unit) library" where
  "fake_library missing fails onnx_size vocab =
     \<lparr> import_error =
         (\<lambda>package. if package \<in> set missing
                     then Some (''No module named '' @ package) else None),
       from_import_error = (\<lambda>module name. None),
       AutoTokenizer_from_pretrained =
         (\<lambda>name (x, root). case fails name of
                              Some msg \<Rightarrow> (Inl msg, x, root)
                            | None \<Rightarrow> (Inr (), x, root)),
       tokenizer_save_pretrained =
         (\<lambda>tokenizer dir (x, root).
            (Inr (), x, if vocab then write_file root (Path dir @ [''vocab.txt'']) 1 else root)),
       ORTModelForTokenClassification_from_pretrained = (\<lambda>name (x, root). (Inr (), x, root)),
       ORTModelForSequenceClassification_from_pretrained =
         (\<lambda>name export (x, root). (Inr (), x, root)),
       model_save_pretrained =
         (\<lambda>model dir (x, root).
            (Inr (), x, case onnx_size dir of
                          None \<Rightarrow> root
                        | Some s \<Rightarrow> write_file root (Path dir @ [''model.onnx'']) s)),
       dir_st_size = 4096,
       os_error_str = (\<lambda>e p. ''OSError: '' @ join ''/'' p) \<rparr>"

definition empty_world :: "unit world" where
  "empty_world = \<lparr> fs = Dir [], outside = (), console = [], results = [], calls = [] \<rparr>"

text \<open>
  The scenarios used below: everything works; the tokenizer of the first model cannot be
  fetched; two packages are missing; the libraries report success and write no model;
  the model file is written empty and without a vocabulary; and two runs that differ only
  in the size of the model file.
\<close>

definition lib_all_ok :: "(unit, unit, unit) library" where
  "lib_all_ok = fake_library [] (\<lambda>name. None) (\<lambda>dir. Some 434865936) True"

definition lib_ner_fails :: "(unit, unit, unit) library" where
  "lib_ner_fails =
     fake_library []
       (\<lambda>name. if name = ''dslim/bert-base-NER'' then Some ''network timeout'' else None)
       (\<lambda>dir. Some 434865936) True"


definition lib_lies :: "(unit, unit, unit) library" where
  "lib_lies = fake_library [] (\<lambda>name. None) (\<lambda>dir. None) True"

definition lib_empty_file :: "(unit, unit, unit) library" where
  "lib_empty_file = fake_library [] (\<lambda>name. None) (\<lambda>dir. Some 0) False"

definition lib_size :: "nat \<Rightarrow> (unit, unit, unit) library" where
  "lib_size n = fake_library [] (\<lambda>name. None) (\<lambda>dir. Some n) True"

text \<open>
  Two more: a library whose first tokenizer download raises the given message, and one
  whose first tokenizer download raises while no model is written for the second.
\<close>

definition lib_ner_raises :: "string \<Rightarrow> (unit, unit, unit) library" where
  "lib_ner_raises msg =
     fake_library []
       (\<lambda>name. if name = ''dslim/bert-base-NER'' then Some msg else None)
       (\<lambda>dir. Some 434865936) True"

definition lib_raises_and_lies :: "(unit, unit, unit) library" where
  "lib_raises_and_lies =
     fake_library []
       (\<lambda>name. if name = ''dslim/bert-base-NER'' then Some ''network timeout'' else None)
       (\<lambda>dir. None) True"

text \<open>
  The world a fetch leaves behind when it starts in the empty one: the output directory
  \<open>models/dir\<close> with the given files, and the progress lines on the console.
\<close>

definition fetched :: "string \<Rightarrow> string list \<Rightarrow> (string \<times> node) list \<Rightarrow> unit world" where
  "fetched dir lines files =
     empty_world\<lparr>fs := Dir [(''models'', Dir [(dir, Dir files)])], console := lines\<rparr>"

definition bert_ner_progress :: "string list" where
  "bert_ner_progress =
     [inbox_tray @ '' Baixando BERT NER (ONNX)...'',
      ''   Baixando tokenizer...'',
      ''   Baixando modelo ONNX (j'' @ a_acute @ '' convertido)...'']"

definition distilbert_progress :: "string list" where
  "distilbert_progress =
     [''\<newline>'' @ inbox_tray @ '' Baixando DistilBERT Sentiment Multilingual...'',
      ''   Baixando tokenizer...'',
      ''   Convertendo para ONNX (pode demorar alguns minutos)...'']"

section \<open>Properties of the building blocks\<close>

subsection \<open>Blocks and the dependency check\<close>

lemmas prog_defs = returnE_def raiseE_def bindE_def thenE_def print_def sys_exit_def

lemma block_Cons_print [simp]:
  "block (print l # stmts) w = block stmts (w\<lparr>console := console w @ [l]\<rparr>)"
  by (simp add: prog_defs block.simps)

lemma block_Nil [simp]: "block [] w = (Inr (), w)"
  by (simp add: returnE_def block.simps)

lemma block_Cons_sys_exit [simp]: "block (sys_exit c # stmts) w = (Inl (SystemExit c), w)"
  by (simp add: prog_defs block.simps)

lemma block_Cons: "block (stmt # stmts) w =
   (case stmt w of (Inl e, w') \<Rightarrow> (Inl e, w') | (Inr v, w') \<Rightarrow> block stmts w')"
  by (simp add: prog_defs block.simps)

lemma missing_loop_eq:
  "missing_loop lib ps missing w =
     (Inr (missing @ filter (\<lambda>p. import_error lib p \<noteq> None) ps), w)"
  by (induction ps arbitrary: missing)
     (auto simp: prog_defs try_except_def py_import_def split: option.splits)

lemma check_dependencies_eq:
  "check_dependencies lib w =
     (let missing = filter (\<lambda>p. import_error lib p \<noteq> None) required
      in if missing \<noteq> [] then
           (Inl (SystemExit 1),
            w\<lparr>console := console w @
               [cross_mark @ '' Pacotes faltando: '' @ join '', '' missing,
                ''\<newline>'' @ ''Instale com:'',
                ''  pip install '' @ join '' '' missing @ '' onnxruntime'']\<rparr>)
         else (Inr (), w))"
  by (simp add: check_dependencies_def bindE_def missing_loop_eq Let_def returnE_def)

subsection \<open>Framed statements\<close>

lemma framedI:
  assumes "\<And>w. m w = (case F (fs w) (outside w) of
           (r, root', x', ls) \<Rightarrow> (r, w\<lparr>fs := root', outside := x', console := console w @ ls\<rparr>))"
      and "\<And>root x e root' x' ls. F root x = (Inl e, root', x', ls) \<Longrightarrow> isinstance_Exception e"
  shows "framed m"
  unfolding framed_def
proof (intro exI[of _ F] conjI allI impI)
  show "m w = (case F (fs w) (outside w) of
           (r, root', x', ls) \<Rightarrow> (r, w\<lparr>fs := root', outside := x', console := console w @ ls\<rparr>))" for w
    by (rule assms(1))
  show "isinstance_Exception e" if "F root x = (Inl e, root', x', ls)" for root x e root' x' ls
    using that by (rule assms(2))
qed

lemma framedD:
  assumes "framed m"
  obtains F where
    "\<And>w. m w = (case F (fs w) (outside w) of
           (r, root', x', ls) \<Rightarrow> (r, w\<lparr>fs := root', outside := x', console := console w @ ls\<rparr>))"
    and "\<And>root x e root' x' ls. F root x = (Inl e, root', x', ls) \<Longrightarrow> isinstance_Exception e"
proof -
  from assms[unfolded framed_def] obtain F where
    12: "(\<forall>w. m w = (case F (fs w) (outside w) of
           (r, root', x', ls) \<Rightarrow> (r, w\<lparr>fs := root', outside := x', console := console w @ ls\<rparr>)))
     \<and> (\<forall>root x e root' x' ls.
              F root x = (Inl e, root', x', ls) \<longrightarrow> isinstance_Exception e)" ..
  show thesis
  proof (rule that[of F])
    show "m w = (case F (fs w) (outside w) of
           (r, root', x', ls) \<Rightarrow> (r, w\<lparr>fs := root', outside := x', console := console w @ ls\<rparr>))" for w
      using 12 by blast
    show "isinstance_Exception e" if "F root x = (Inl e, root', x', ls)" for root x e root' x' ls
      using 12 that by blast
  qed
qed

lemma framed_returnE: "framed (returnE v)"
  by (rule framedI[where F = "\<lambda>root x. (Inr v, root, x, [])"]) (auto simp: returnE_def)

lemma framed_print: "framed (print l)"
  by (rule framedI[where F = "\<lambda>root x. (Inr (), root, x, [l])"]) (auto simp: print_def)

lemma framed_from_import: "framed (from_import lib a b)"
  by (rule framedI[where F = "\<lambda>root x. (case from_import_error lib a b of
         None \<Rightarrow> Inr () | Some msg \<Rightarrow> Inl (ImportError msg), root, x, [])"])
     (auto simp: from_import_def returnE_def raiseE_def split: option.splits)

lemma framed_Path_mkdir: "framed (Path_mkdir a b p)"
  by (rule framedI[where F = "\<lambda>root x. (case path_mkdir a b root p of
         Inl (e, q) \<Rightarrow> (Inl (OSError e q), root, x, []) | Inr root' \<Rightarrow> (Inr (), root', x, []))"])
     (auto simp: Path_mkdir_def split: sum.splits prod.splits)

lemma framed_extcall: "framed (extcall f)"
  by (rule framedI[where F = "\<lambda>root x. (case f (x, root) of
         (Inl msg, x', root') \<Rightarrow> (Inl (Exception msg), root', x', [])
       | (Inr v, x', root') \<Rightarrow> (Inr v, root', x', []))"])
     (auto simp: extcall_def split: sum.splits prod.splits)

lemma framed_bindE:
  assumes "framed m" and "\<And>v. framed (f v)"
  shows "framed (bindE m f)"
  using assms(1)
proof (rule framedD)
  fix F
  assume F: "\<And>w. m w = (case F (fs w) (outside w) of
           (r, root', x', ls) \<Rightarrow> (r, w\<lparr>fs := root', outside := x', console := console w @ ls\<rparr>))"
    and FE: "\<And>root x e root' x' ls. F root x = (Inl e, root', x', ls) \<Longrightarrow> isinstance_Exception e"
  have "\<forall>v. \<exists>G. (\<forall>w. f v w =
        (case G (fs w) (outside w) of
           (r, root', x', ls) \<Rightarrow> (r, w\<lparr>fs := root', outside := x', console := console w @ ls\<rparr>)))
        \<and> (\<forall>root x e root' x' ls.
              G root x = (Inl e, root', x', ls) \<longrightarrow> isinstance_Exception e)"
    using assms(2) unfolding framed_def by (rule allI)
  then have "\<exists>G. \<forall>v. (\<forall>w. f v w =
        (case G v (fs w) (outside w) of
           (r, root', x', ls) \<Rightarrow> (r, w\<lparr>fs := root', outside := x', console := console w @ ls\<rparr>)))
        \<and> (\<forall>root x e root' x' ls.
              G v root x = (Inl e, root', x', ls) \<longrightarrow> isinstance_Exception e)"
    by (rule choice)
  then obtain G where
    G12: "\<forall>v. (\<forall>w. f v w =
        (case G v (fs w) (outside w) of
           (r, root', x', ls) \<Rightarrow> (r, w\<lparr>fs := root', outside := x', console := console w @ ls\<rparr>)))
        \<and> (\<forall>root x e root' x' ls.
              G v root x = (Inl e, root', x', ls) \<longrightarrow> isinstance_Exception e)" ..
  have G: "f v w = (case G v (fs w) (outside w) of
           (r, root', x', ls) \<Rightarrow> (r, w\<lparr>fs := root', outside := x', console := console w @ ls\<rparr>))" for v w
    using G12 by blast
  have GE: "isinstance_Exception e" if "G v root x = (Inl e, root', x', ls)" for v root x e root' x' ls
    using G12 that by blast
  define H where "H = (\<lambda>root x. (case F root x of
           (Inl e, root', x', ls) \<Rightarrow> (Inl e, root', x', ls)
         | (Inr v, root', x', ls) \<Rightarrow>
             (case G v root' x' of (r, root'', x'', ls') \<Rightarrow> (r, root'', x'', ls @ ls'))))"
  show ?thesis
  proof (rule framedI[where F = H])
    fix w
    show "bindE m f w = (case H (fs w) (outside w) of
           (r, root', x', ls) \<Rightarrow> (r, w\<lparr>fs := root', outside := x', console := console w @ ls\<rparr>))"
      by (simp add: bindE_def F G H_def split: prod.splits sum.splits)
  next
    fix root x e root' x' ls
    assume "H root x = (Inl e, root', x', ls)"
    then show "isinstance_Exception e"
      unfolding H_def using FE GE by (auto split: prod.splits sum.splits)
  qed
qed

lemma framed_thenE: "framed m \<Longrightarrow> framed k \<Longrightarrow> framed (thenE m k)"
  by (simp add: thenE_def framed_bindE)

lemma framed_block: "(\<And>s. s \<in> set stmts \<Longrightarrow> framed s) \<Longrightarrow> framed (block stmts)"
  by (induction stmts) (auto simp: block.simps framed_returnE framed_thenE)

lemma framed_bert_ner_fetch: "framed (bert_ner_fetch lib)"
  unfolding bert_ner_fetch_def Let_def
  by (intro framed_block)
     (auto intro!: framed_from_import framed_print framed_Path_mkdir framed_bindE framed_extcall)

lemma framed_distilbert_fetch: "framed (distilbert_fetch lib)"
  unfolding distilbert_fetch_def Let_def
  by (intro framed_block)
     (auto intro!: framed_from_import framed_print framed_Path_mkdir framed_bindE framed_extcall)

lemma bert_ner_verify_eq:
  "bert_ner_verify lib w =
     (if exists_path (fs w) (Path ''models/bert-base-ner'' @ [''model.onnx''])
      then (Inr True, w\<lparr>console := console w @
              [check_mark @ '' BERT NER salvo em: '' @ ''models/bert-base-ner'' @ ''/'',
               ''   Arquivo ONNX: '' @
                 format_mb (st_size (dir_st_size lib) (fs w)
                              (Path ''models/bert-base-ner'' @ [''model.onnx''])) @ '' MB'',
               ''   Vocabul'' @ a_acute @ ''rio: '' @
                 (if exists_path (fs w) (Path ''models/bert-base-ner'' @ [''vocab.txt''])
                  then check_mark else cross_mark)]\<rparr>)
      else (Inr False, w\<lparr>console := console w @
              [cross_mark @ '' Erro: arquivo model.onnx n'' @ a_tilde @ ''o foi criado'']\<rparr>))"
  by (simp add: bert_ner_verify_def Let_def thenE_def bindE_def returnE_def print_def)

lemma distilbert_verify_eq:
  "distilbert_verify lib w =
     (if exists_path (fs w) (Path ''models/distilbert-sentiment'' @ [''model.onnx''])
      then (Inr True, w\<lparr>console := console w @
              [check_mark @ '' DistilBERT Sentiment salvo em: '' @ ''models/distilbert-sentiment'' @ ''/'',
               ''   Arquivo ONNX: '' @
                 format_mb (st_size (dir_st_size lib) (fs w)
                              (Path ''models/distilbert-sentiment'' @ [''model.onnx''])) @ '' MB'',
               ''   Vocabul'' @ a_acute @ ''rio: '' @
                 (if exists_path (fs w) (Path ''models/distilbert-sentiment'' @ [''vocab.txt''])
                  then check_mark else cross_mark)]\<rparr>)
      else (Inr False, w\<lparr>console := console w @
              [cross_mark @ '' Erro: arquivo model.onnx n'' @ a_tilde @ ''o foi criado'']\<rparr>))"
  by (simp add: distilbert_verify_def Let_def thenE_def bindE_def returnE_def print_def)

lemma framed_bert_ner_verify: "framed (bert_ner_verify lib)"
  by (rule framedI[where F = "\<lambda>root x.
        if exists_path root (Path ''models/bert-base-ner'' @ [''model.onnx''])
        then (Inr True, root, x,
              [check_mark @ '' BERT NER salvo em: '' @ ''models/bert-base-ner'' @ ''/'',
               ''   Arquivo ONNX: '' @
                 format_mb (st_size (dir_st_size lib) root
                              (Path ''models/bert-base-ner'' @ [''model.onnx''])) @ '' MB'',
               ''   Vocabul'' @ a_acute @ ''rio: '' @
                 (if exists_path root (Path ''models/bert-base-ner'' @ [''vocab.txt''])
                  then check_mark else cross_mark)])
        else (Inr False, root, x,
              [cross_mark @ '' Erro: arquivo model.onnx n'' @ a_tilde @ ''o foi criado''])"])
     (simp_all add: bert_ner_verify_eq split: if_splits)

lemma framed_distilbert_verify: "framed (distilbert_verify lib)"
  by (rule framedI[where F = "\<lambda>root x.
        if exists_path root (Path ''models/distilbert-sentiment'' @ [''model.onnx''])
        then (Inr True, root, x,
              [check_mark @ '' DistilBERT Sentiment salvo em: '' @ ''models/distilbert-sentiment'' @ ''/'',
               ''   Arquivo ONNX: '' @
                 format_mb (st_size (dir_st_size lib) root
                              (Path ''models/distilbert-sentiment'' @ [''model.onnx''])) @ '' MB'',
               ''   Vocabul'' @ a_acute @ ''rio: '' @
                 (if exists_path root (Path ''models/distilbert-sentiment'' @ [''vocab.txt''])
                  then check_mark else cross_mark)])
        else (Inr False, root, x,
              [cross_mark @ '' Erro: arquivo model.onnx n'' @ a_tilde @ ''o foi criado''])"])
     (simp_all add: distilbert_verify_eq split: if_splits)

lemma framed_bert_ner: "framed (download_and_convert_bert_ner lib)"
  by (simp add: download_and_convert_bert_ner_def framed_thenE framed_bert_ner_fetch
        framed_bert_ner_verify)

lemma framed_distilbert: "framed (download_and_convert_distilbert_sentiment lib)"
  by (simp add: download_and_convert_distilbert_sentiment_def framed_thenE
        framed_distilbert_fetch framed_distilbert_verify)

lemma framed_frame:
  assumes "framed m" and "m w = (r, w')"
  shows "results w' = results w" and "calls w' = calls w"
    and "\<exists>ls. console w' = console w @ ls"
    and "r = Inl e \<Longrightarrow> isinstance_Exception e"
  using assms(1)
  by (rule framedD, use assms(2) in \<open>auto split: prod.splits\<close>)+

lemma framed_same:
  assumes "framed m" and "fs w = fs v" and "outside w = outside v"
  shows "fst (m w) = fst (m v)"
    and "fs (snd (m w)) = fs (snd (m v))"
    and "outside (snd (m w)) = outside (snd (m v))"
  using assms(1)
  by (rule framedD, use assms(2,3) in \<open>auto split: prod.splits\<close>)+

subsection \<open>The three parts of \<open>main\<close>\<close>

lemma block_Cons_set_result [simp]:
  "block (set_result k v # stmts) w = block stmts (w\<lparr>results := AList.update k v (results w)\<rparr>)"
  by (simp add: set_result_def block_Cons)

lemma try_job:
  assumes "framed job"
  shows "try_except (bindE (call n job) (set_result k)) isinstance_Exception
           (\<lambda>e. block [print (pre @ str_exn lib e), set_result k False]) w =
         (case job (w\<lparr>calls := calls w @ [n]\<rparr>) of
            (Inr b, w') \<Rightarrow> (Inr (), w'\<lparr>results := AList.update k b (results w')\<rparr>)
          | (Inl e, w') \<Rightarrow>
              (Inr (), w'\<lparr>console := console w' @ [pre @ str_exn lib e],
                          results := AList.update k False (results w')\<rparr>))"
proof (cases "job (w\<lparr>calls := calls w @ [n]\<rparr>)")
  case (Pair r w')
  show ?thesis
  proof (cases r)
    case (Inl e)
    with Pair assms have "isinstance_Exception e"
      by (simp add: framed_frame(4))
    with Pair Inl show ?thesis
      by (simp add: try_except_def bindE_def call_def)
  next
    case (Inr b)
    with Pair show ?thesis
      by (simp add: try_except_def bindE_def call_def set_result_def)
  qed
qed

lemma main_dependencies_ok:
  assumes "\<forall>p\<in>set required. import_error lib p = None"
  shows "main_dependencies lib w =
     (Inr (), w\<lparr>console := console w @
        [replicate 70 CHR ''='',
         rocket @ '' Download e Convers'' @ a_tilde @ ''o de Modelos NLP para NEXS-MCP'',
         replicate 70 CHR ''='',
         [],
         magnifier @ '' Verificando depend'' @ e_circ @ ''ncias...'',
         check_mark @ '' Todas as depend'' @ e_circ @ ''ncias instaladas'' @ ''\<newline>'']\<rparr>)"
proof -
  from assms have "filter (\<lambda>p. import_error lib p \<noteq> None) required = []"
    by (simp add: filter_empty_conv)
  then show ?thesis
    by (simp add: main_dependencies_def block_Cons[of "check_dependencies lib"] check_dependencies_eq)
qed


lemma main_summary_run:
  assumes "results w = [(''bert_ner'', b1), (''distilbert'', b2)]"
  shows "\<exists>ls. main_summary w =
           (if b1 \<and> b2 then Inr () else Inl (SystemExit 1), w\<lparr>console := console w @ ls\<rparr>)"
  using assms
  by (auto simp: main_summary_def block_Cons bindE_def get_result_def print_def sys_exit_def raiseE_def)

lemma main_downloads_run:
  fixes lib :: "('x, 't, 'm) library" and w :: "'x world"
  defines "r1 \<equiv> fst (download_and_convert_bert_ner lib w)"
      and "v1 \<equiv> snd (download_and_convert_bert_ner lib w)"
  defines "r2 \<equiv> fst (download_and_convert_distilbert_sentiment lib v1)"
      and "v2 \<equiv> snd (download_and_convert_distilbert_sentiment lib v1)"
  shows "\<exists>w'. main_downloads lib w = (Inr (), w')
          \<and> results w' = [(''bert_ner'', r1 = Inr True), (''distilbert'', r2 = Inr True)]
          \<and> calls w' = calls w @ [''download_and_convert_bert_ner'',
                                   ''download_and_convert_distilbert_sentiment'']
          \<and> fs w' = fs v2 \<and> outside w' = outside v2
          \<and> (\<exists>ls. console w' = console w @ ls
                \<and> (\<forall>e. r1 = Inl e \<longrightarrow>
                       cross_mark @ '' Erro ao processar BERT NER: '' @ str_exn lib e \<in> set ls)
                \<and> (\<forall>e. r2 = Inl e \<longrightarrow>
                       cross_mark @ '' Erro ao processar DistilBERT Sentiment: '' @ str_exn lib e
                         \<in> set ls))"
proof -
  let ?J1 = "download_and_convert_bert_ner lib"
  let ?J2 = "download_and_convert_distilbert_sentiment lib"
  let ?n1 = "''download_and_convert_bert_ner''"
  let ?n2 = "''download_and_convert_distilbert_sentiment''"
  let ?wa = "w\<lparr>results := [], calls := calls w @ [?n1]\<rparr>"
  obtain ra wa where A: "?J1 ?wa = (ra, wa)" by force
  have ra: "ra = r1" and fa: "fs wa = fs v1" and oa: "outside wa = outside v1"
    using framed_same[OF framed_bert_ner, of ?wa w lib] A by (simp_all add: r1_def v1_def)
  have resa: "results wa = []" and ca: "calls wa = calls w @ [?n1]"
    using framed_frame(1,2)[OF framed_bert_ner A] by simp_all
  obtain la where la: "console wa = console w @ la"
    using framed_frame(3)[OF framed_bert_ner A] by auto
  define wb where "wb = (case ra of
      Inr b \<Rightarrow> wa\<lparr>results := AList.update ''bert_ner'' b (results wa)\<rparr>
    | Inl e \<Rightarrow> wa\<lparr>console := console wa @
                     [(cross_mark @ '' Erro ao processar BERT NER: '') @ str_exn lib e],
                   results := AList.update ''bert_ner'' False (results wa)\<rparr>)"
  have step1: "try_except
         (bindE (call ?n1 ?J1) (set_result ''bert_ner''))
         isinstance_Exception
         (\<lambda>e. block [
            print ((cross_mark @ '' Erro ao processar BERT NER: '') @ str_exn lib e),
            set_result ''bert_ner'' False]) (w\<lparr>results := []\<rparr>) = (Inr (), wb)"
    by (subst try_job[OF framed_bert_ner]) (use A in \<open>simp add: wb_def split: sum.splits\<close>)
  have resb: "results wb = [(''bert_ner'', r1 = Inr True)]"
    and cb: "calls wb = calls w @ [?n1]" and fb: "fs wb = fs v1" and ob: "outside wb = outside v1"
    using resa ca fa oa ra by (auto simp: wb_def split: sum.splits)
  have "\<exists>lb. console wb = console w @ lb
          \<and> (\<forall>e. r1 = Inl e \<longrightarrow>
                 cross_mark @ '' Erro ao processar BERT NER: '' @ str_exn lib e \<in> set lb)"
    using la unfolding ra[symmetric] by (cases ra) (simp_all add: wb_def)
  then obtain lb where lb: "console wb = console w @ lb"
    and e1: "\<forall>e. r1 = Inl e \<longrightarrow>
                 cross_mark @ '' Erro ao processar BERT NER: '' @ str_exn lib e \<in> set lb"
    by blast
  let ?wc = "wb\<lparr>calls := calls wb @ [?n2]\<rparr>"
  obtain rc wc where C: "?J2 ?wc = (rc, wc)" by force
  have rc: "rc = r2" and fc: "fs wc = fs v2" and oc: "outside wc = outside v2"
    using framed_same[OF framed_distilbert, of ?wc v1 lib] C fb ob by (simp_all add: r2_def v2_def)
  have resc: "results wc = [(''bert_ner'', r1 = Inr True)]" and cc: "calls wc = calls w @ [?n1, ?n2]"
    using framed_frame(1,2)[OF framed_distilbert C] resb cb by simp_all
  obtain lc where lc: "console wc = console wb @ lc"
    using framed_frame(3)[OF framed_distilbert C] by auto
  define wd where "wd = (case rc of
      Inr b \<Rightarrow> wc\<lparr>results := AList.update ''distilbert'' b (results wc)\<rparr>
    | Inl e \<Rightarrow> wc\<lparr>console := console wc @
                     [(cross_mark @ '' Erro ao processar DistilBERT Sentiment: '') @ str_exn lib e],
                   results := AList.update ''distilbert'' False (results wc)\<rparr>)"
  have step2: "try_except
         (bindE (call ?n2 ?J2) (set_result ''distilbert''))
         isinstance_Exception
         (\<lambda>e. block [
            print ((cross_mark @ '' Erro ao processar DistilBERT Sentiment: '') @ str_exn lib e),
            set_result ''distilbert'' False]) wb = (Inr (), wd)"
    by (subst try_job[OF framed_distilbert]) (use C in \<open>simp add: wd_def split: sum.splits\<close>)
  have resd: "results wd = [(''bert_ner'', r1 = Inr True), (''distilbert'', r2 = Inr True)]"
    and cd: "calls wd = calls w @ [?n1, ?n2]" and fd: "fs wd = fs v2" and od: "outside wd = outside v2"
    using resc cc fc oc rc by (auto simp: wd_def split: sum.splits)
  have "\<exists>ld. console wd = console wb @ ld
          \<and> (\<forall>e. r2 = Inl e \<longrightarrow>
                 cross_mark @ '' Erro ao processar DistilBERT Sentiment: '' @ str_exn lib e
                   \<in> set ld)"
    using lc unfolding rc[symmetric] by (cases rc) (simp_all add: wd_def)
  then obtain ld where ld: "console wd = console wb @ ld"
    and e2: "\<forall>e. r2 = Inl e \<longrightarrow>
                 cross_mark @ '' Erro ao processar DistilBERT Sentiment: '' @ str_exn lib e
                   \<in> set ld"
    by blast
  have run: "main_downloads lib w = (Inr (), wd)"
    unfolding main_downloads_def
    by (subst block_Cons, simp, subst block_Cons, subst step1[simplified], simp,
        subst block_Cons, subst step2[simplified], simp)
  have "console wd = console w @ (lb @ ld)"
    using lb ld by simp
  moreover have "\<forall>e. r1 = Inl e \<longrightarrow>
      cross_mark @ '' Erro ao processar BERT NER: '' @ str_exn lib e \<in> set (lb @ ld)"
    using e1 by simp
  moreover have "\<forall>e. r2 = Inl e \<longrightarrow>
      cross_mark @ '' Erro ao processar DistilBERT Sentiment: '' @ str_exn lib e \<in> set (lb @ ld)"
    using e2 by simp
  ultimately show ?thesis
    using run resd cd fd od by blast
qed

lemma main_run:
  fixes lib :: "('x, 't, 'm) library" and w :: "'x world"
  defines "r1 \<equiv> fst (download_and_convert_bert_ner lib w)"
      and "v1 \<equiv> snd (download_and_convert_bert_ner lib w)"
  defines "r2 \<equiv> fst (download_and_convert_distilbert_sentiment lib v1)"
      and "v2 \<equiv> snd (download_and_convert_distilbert_sentiment lib v1)"
  assumes gate: "\<forall>p\<in>set required. import_error lib p = None"
  shows "\<exists>w'. main lib w =
              (if r1 = Inr True \<and> r2 = Inr True then Inr () else Inl (SystemExit 1), w')
          \<and> results w' = [(''bert_ner'', r1 = Inr True), (''distilbert'', r2 = Inr True)]
          \<and> calls w' = calls w @ [''download_and_convert_bert_ner'',
                                   ''download_and_convert_distilbert_sentiment'']
          \<and> fs w' = fs v2 \<and> outside w' = outside v2
          \<and> (\<exists>ls. console w' = console w @ ls
                \<and> (\<forall>e. r1 = Inl e \<longrightarrow>
                       cross_mark @ '' Erro ao processar BERT NER: '' @ str_exn lib e \<in> set ls)
                \<and> (\<forall>e. r2 = Inl e \<longrightarrow>
                       cross_mark @ '' Erro ao processar DistilBERT Sentiment: '' @ str_exn lib e
                         \<in> set ls))"
proof -
  let ?J1 = "download_and_convert_bert_ner lib"
  let ?J2 = "download_and_convert_distilbert_sentiment lib"
  obtain l0 where dep: "main_dependencies lib w = (Inr (), w\<lparr>console := console w @ l0\<rparr>)"
    using main_dependencies_ok[OF gate] by blast
  let ?w0 = "w\<lparr>console := console w @ l0\<rparr>"
  have s1: "fst (?J1 ?w0) = r1" and f1: "fs (snd (?J1 ?w0)) = fs v1"
    and o1: "outside (snd (?J1 ?w0)) = outside v1"
    using framed_same[OF framed_bert_ner, of ?w0 w lib] by (simp_all add: r1_def v1_def)
  have s2: "fst (?J2 (snd (?J1 ?w0))) = r2" and f2: "fs (snd (?J2 (snd (?J1 ?w0)))) = fs v2"
    and o2: "outside (snd (?J2 (snd (?J1 ?w0)))) = outside v2"
    using framed_same[OF framed_distilbert, of "snd (?J1 ?w0)" v1 lib] f1 o1
    by (simp_all add: r2_def v2_def)
  have "\<exists>w1. main_downloads lib ?w0 = (Inr (), w1)
          \<and> results w1 = [(''bert_ner'', r1 = Inr True), (''distilbert'', r2 = Inr True)]
          \<and> calls w1 = calls w @ [''download_and_convert_bert_ner'',
                                   ''download_and_convert_distilbert_sentiment'']
          \<and> fs w1 = fs v2 \<and> outside w1 = outside v2
          \<and> (\<exists>ls. console w1 = console ?w0 @ ls
                \<and> (\<forall>e. r1 = Inl e \<longrightarrow>
                       cross_mark @ '' Erro ao processar BERT NER: '' @ str_exn lib e \<in> set ls)
                \<and> (\<forall>e. r2 = Inl e \<longrightarrow>
                       cross_mark @ '' Erro ao processar DistilBERT Sentiment: '' @ str_exn lib e
                         \<in> set ls))"
    using main_downloads_run[of lib ?w0] unfolding s1 s2 f2 o2 by simp
  then obtain w1 where
    run: "main_downloads lib ?w0 = (Inr (), w1)"
    and res: "results w1 = [(''bert_ner'', r1 = Inr True), (''distilbert'', r2 = Inr True)]"
    and cal: "calls w1 = calls w @ [''download_and_convert_bert_ner'',
                                    ''download_and_convert_distilbert_sentiment'']"
    and fs1: "fs w1 = fs v2" and out1: "outside w1 = outside v2"
    and con: "\<exists>ls. console w1 = console ?w0 @ ls
                \<and> (\<forall>e. r1 = Inl e \<longrightarrow>
                       cross_mark @ '' Erro ao processar BERT NER: '' @ str_exn lib e \<in> set ls)
                \<and> (\<forall>e. r2 = Inl e \<longrightarrow>
                       cross_mark @ '' Erro ao processar DistilBERT Sentiment: '' @ str_exn lib e
                         \<in> set ls)"
    by blast
  from con obtain l1 where l1: "console w1 = console w @ l0 @ l1"
    and e1: "\<forall>e. r1 = Inl e \<longrightarrow>
                 cross_mark @ '' Erro ao processar BERT NER: '' @ str_exn lib e \<in> set l1"
    and e2: "\<forall>e. r2 = Inl e \<longrightarrow>
                 cross_mark @ '' Erro ao processar DistilBERT Sentiment: '' @ str_exn lib e
                   \<in> set l1"
    by auto
  from main_summary_run[OF res] obtain l2 where
    sum: "main_summary w1 =
            (if r1 = Inr True \<and> r2 = Inr True then Inr () else Inl (SystemExit 1),
             w1\<lparr>console := console w1 @ l2\<rparr>)"
    by blast
  have m: "main lib w = (if r1 = Inr True \<and> r2 = Inr True then Inr () else Inl (SystemExit 1),
                      w1\<lparr>console := console w1 @ l2\<rparr>)"
    unfolding main_def
    by (simp add: block_Cons dep run sum)
  have "console (w1\<lparr>console := console w1 @ l2\<rparr>) = console w @ (l0 @ l1 @ l2)"
    using l1 by simp
  moreover have "\<forall>e. r1 = Inl e \<longrightarrow>
      cross_mark @ '' Erro ao processar BERT NER: '' @ str_exn lib e \<in> set (l0 @ l1 @ l2)"
    using e1 by simp
  moreover have "\<forall>e. r2 = Inl e \<longrightarrow>
      cross_mark @ '' Erro ao processar DistilBERT Sentiment: '' @ str_exn lib e
        \<in> set (l0 @ l1 @ l2)"
    using e2 by simp
  moreover have "results (w1\<lparr>console := console w1 @ l2\<rparr>) =
      [(''bert_ner'', r1 = Inr True), (''distilbert'', r2 = Inr True)]"
    and "calls (w1\<lparr>console := console w1 @ l2\<rparr>) =
      calls w @ [''download_and_convert_bert_ner'', ''download_and_convert_distilbert_sentiment'']"
    and "fs (w1\<lparr>console := console w1 @ l2\<rparr>) = fs v2"
    and "outside (w1\<lparr>console := console w1 @ l2\<rparr>) = outside v2"
    using res cal fs1 out1 by simp_all
  ultimately show ?thesis
    using m by blast
qed

subsection \<open>A download function after its library calls have returned\<close>

lemma bert_ner_after_fetch:
  "bert_ner_fetch lib w = (Inr (), w1) \<Longrightarrow>
     download_and_convert_bert_ner lib w = bert_ner_verify lib w1"
  by (simp add: download_and_convert_bert_ner_def thenE_def bindE_def)

lemma distilbert_after_fetch:
  "distilbert_fetch lib w = (Inr (), w1) \<Longrightarrow>
     download_and_convert_distilbert_sentiment lib w = distilbert_verify lib w1"
  by (simp add: download_and_convert_distilbert_sentiment_def thenE_def bindE_def)

subsection \<open>Running the script on the test doubles\<close>

lemmas run_defs =
  download_and_convert_bert_ner_def bert_ner_fetch_def bert_ner_verify_eq
  download_and_convert_distilbert_sentiment_def distilbert_fetch_def distilbert_verify_eq
  thenE_def bindE_def block_Cons from_import_def returnE_def raiseE_def
  Path_mkdir_def Path_def path_mkdir.simps extcall_def is_dir_def exists_path_def print_def
  fake_library_def empty_world_def

lemma lies_bert_ner_fetch:
  "bert_ner_fetch lib_lies empty_world =
     (Inr (), empty_world\<lparr>
        fs := Dir [(''models'', Dir [(''bert-base-ner'', Dir [(''vocab.txt'', File 1)])])],
        console := [inbox_tray @ '' Baixando BERT NER (ONNX)...'',
                    ''   Baixando tokenizer...'',
                    ''   Baixando modelo ONNX (j'' @ a_acute @ '' convertido)...'']\<rparr>)"
  by (simp add: run_defs lib_lies_def)

lemma lies_distilbert_fetch:
  "distilbert_fetch lib_lies empty_world =
     (Inr (), empty_world\<lparr>
        fs := Dir [(''models'', Dir [(''distilbert-sentiment'', Dir [(''vocab.txt'', File 1)])])],
        console := [''\<newline>'' @ inbox_tray @ '' Baixando DistilBERT Sentiment Multilingual...'',
                    ''   Baixando tokenizer...'',
                    ''   Convertendo para ONNX (pode demorar alguns minutos)...'']\<rparr>)"
  by (simp add: run_defs lib_lies_def)

text \<open>The size line on numerals.\<close>

lemma bit_length_0 [simp]: "bit_length 0 = 0"
  by (simp add: bit_length.simps)

lemma bit_length_Suc_0 [simp]: "bit_length (Suc 0) = 1"
  by (simp add: bit_length.simps[of "Suc 0"])

lemma bit_length_One [simp]: "bit_length (numeral Num.One) = 1"
  by (subst bit_length.simps) simp

lemma bit_length_Bit0 [simp]: "bit_length (numeral (Num.Bit0 k)) = Suc (bit_length (numeral k))"
  by (subst bit_length.simps) simp

lemma bit_length_Bit1 [simp]: "bit_length (numeral (Num.Bit1 k)) = Suc (bit_length (numeral k))"
  by (subst bit_length.simps) simp

lemmas format_defs = format_mb_def to_double_def round_half_even_def str_nat.simps digit_def Let_def

lemma format_mb_examples:
  "format_mb 0 = ''0.0''"
  "format_mb 1000000 = ''1.0''"
  "format_mb 5000000 = ''4.8''"
  "format_mb 434865936 = ''414.7''"
  by (simp_all add: format_defs)

lemma size_bert_ner_fetch:
  "bert_ner_fetch (lib_size n) empty_world =
     (Inr (), empty_world\<lparr>
        fs := Dir [(''models'', Dir [(''bert-base-ner'',
                 Dir [(''vocab.txt'', File 1), (''model.onnx'', File n)])])],
        console := [inbox_tray @ '' Baixando BERT NER (ONNX)...'',
                    ''   Baixando tokenizer...'',
                    ''   Baixando modelo ONNX (j'' @ a_acute @ '' convertido)...'']\<rparr>)"
  by (simp add: run_defs lib_size_def)

lemma size_distilbert_fetch:
  assumes "fs w = Dir [(''models'', Dir [(''bert-base-ner'',
                 Dir [(''vocab.txt'', File 1), (''model.onnx'', File n)])])]"
  shows "distilbert_fetch (lib_size n) w =
     (Inr (), w\<lparr>
        fs := Dir [(''models'',
                 Dir [(''bert-base-ner'',
                       Dir [(''vocab.txt'', File 1), (''model.onnx'', File n)]),
                      (''distilbert-sentiment'',
                       Dir [(''vocab.txt'', File 1), (''model.onnx'', File n)])])],
        console := console w @
                   [''\<newline>'' @ inbox_tray @ '' Baixando DistilBERT Sentiment Multilingual...'',
                    ''   Baixando tokenizer...'',
                    ''   Convertendo para ONNX (pode demorar alguns minutos)...'']\<rparr>)"
  using assms by (simp add: run_defs lib_size_def)

lemma size_gate: "\<forall>p\<in>set required. import_error (lib_size n) p = None"
  by (simp add: lib_size_def fake_library_def)

lemma size_bert_ner:
  "download_and_convert_bert_ner (lib_size n) empty_world =
     (Inr True, empty_world\<lparr>
        fs := Dir [(''models'', Dir [(''bert-base-ner'',
                 Dir [(''vocab.txt'', File 1), (''model.onnx'', File n)])])],
        console := [inbox_tray @ '' Baixando BERT NER (ONNX)...'',
                    ''   Baixando tokenizer...'',
                    ''   Baixando modelo ONNX (j'' @ a_acute @ '' convertido)...'',
                    check_mark @ '' BERT NER salvo em: models/bert-base-ner/'',
                    ''   Arquivo ONNX: '' @ format_mb n @ '' MB'',
                    ''   Vocabul'' @ a_acute @ ''rio: '' @ check_mark]\<rparr>)"
  unfolding bert_ner_after_fetch[OF size_bert_ner_fetch]
  by (simp add: bert_ner_verify_eq exists_path_def Path_def st_size_def empty_world_def)

lemma size_main_results:
  "results (snd (main (lib_size n) empty_world)) = [(''bert_ner'', True), (''distilbert'', True)]"
  and size_main_fs:
  "fs (snd (main (lib_size n) empty_world)) =
     Dir [(''models'',
           Dir [(''bert-base-ner'', Dir [(''vocab.txt'', File 1), (''model.onnx'', File n)]),
                (''distilbert-sentiment'', Dir [(''vocab.txt'', File 1), (''model.onnx'', File n)])])]"
proof -
  let ?w1 = "empty_world\<lparr>
        fs := Dir [(''models'', Dir [(''bert-base-ner'',
                 Dir [(''vocab.txt'', File 1), (''model.onnx'', File n)])])],
        console := [inbox_tray @ '' Baixando BERT NER (ONNX)...'',
                    ''   Baixando tokenizer...'',
                    ''   Baixando modelo ONNX (j'' @ a_acute @ '' convertido)...'',
                    check_mark @ '' BERT NER salvo em: models/bert-base-ner/'',
                    ''   Arquivo ONNX: '' @ format_mb n @ '' MB'',
                    ''   Vocabul'' @ a_acute @ ''rio: '' @ check_mark]\<rparr>"
  have f2: "distilbert_fetch (lib_size n) ?w1 = (Inr (), ?w1\<lparr>
        fs := Dir [(''models'',
                 Dir [(''bert-base-ner'',
                       Dir [(''vocab.txt'', File 1), (''model.onnx'', File n)]),
                      (''distilbert-sentiment'',
                       Dir [(''vocab.txt'', File 1), (''model.onnx'', File n)])])],
        console := console ?w1 @
                   [''\<newline>'' @ inbox_tray @ '' Baixando DistilBERT Sentiment Multilingual...'',
                    ''   Baixando tokenizer...'',
                    ''   Convertendo para ONNX (pode demorar alguns minutos)...'']\<rparr>)"
    by (rule size_distilbert_fetch) (simp add: empty_world_def)
  have j2: "fst (download_and_convert_distilbert_sentiment (lib_size n) ?w1) = Inr True"
    and k2: "fs (snd (download_and_convert_distilbert_sentiment (lib_size n) ?w1)) =
     Dir [(''models'',
           Dir [(''bert-base-ner'', Dir [(''vocab.txt'', File 1), (''model.onnx'', File n)]),
                (''distilbert-sentiment'', Dir [(''vocab.txt'', File 1), (''model.onnx'', File n)])])]"
    unfolding distilbert_after_fetch[OF f2]
    by (simp_all add: distilbert_verify_eq exists_path_def Path_def empty_world_def)
  from main_run[OF size_gate, of n empty_world]
  show "results (snd (main (lib_size n) empty_world)) = [(''bert_ner'', True), (''distilbert'', True)]"
    and "fs (snd (main (lib_size n) empty_world)) =
     Dir [(''models'',
           Dir [(''bert-base-ner'', Dir [(''vocab.txt'', File 1), (''model.onnx'', File n)]),
                (''distilbert-sentiment'', Dir [(''vocab.txt'', File 1), (''model.onnx'', File n)])])]"
    unfolding size_bert_ner snd_conv fst_conv j2 k2 by auto
qed

lemma bert_ner_present:
  assumes "bert_ner_fetch lib w = (Inr (), w1)"
      and "exists_path (fs w1) (Path ''models/bert-base-ner'' @ [''model.onnx''])"
  shows "download_and_convert_bert_ner lib w =
     (Inr True, w1\<lparr>console := console w1 @
        [check_mark @ '' BERT NER salvo em: '' @ ''models/bert-base-ner'' @ ''/'',
         ''   Arquivo ONNX: '' @
           format_mb (st_size (dir_st_size lib) (fs w1)
                        (Path ''models/bert-base-ner'' @ [''model.onnx''])) @ '' MB'',
         ''   Vocabul'' @ a_acute @ ''rio: '' @
           (if exists_path (fs w1) (Path ''models/bert-base-ner'' @ [''vocab.txt''])
            then check_mark else cross_mark)]\<rparr>)"
  unfolding bert_ner_after_fetch[OF assms(1)] bert_ner_verify_eq using assms(2) by simp

lemma distilbert_present:
  assumes "distilbert_fetch lib w = (Inr (), w1)"
      and "exists_path (fs w1) (Path ''models/distilbert-sentiment'' @ [''model.onnx''])"
  shows "download_and_convert_distilbert_sentiment lib w =
     (Inr True, w1\<lparr>console := console w1 @
        [check_mark @ '' DistilBERT Sentiment salvo em: '' @ ''models/distilbert-sentiment'' @ ''/'',
         ''   Arquivo ONNX: '' @
           format_mb (st_size (dir_st_size lib) (fs w1)
                        (Path ''models/distilbert-sentiment'' @ [''model.onnx''])) @ '' MB'',
         ''   Vocabul'' @ a_acute @ ''rio: '' @
           (if exists_path (fs w1) (Path ''models/distilbert-sentiment'' @ [''vocab.txt''])
            then check_mark else cross_mark)]\<rparr>)"
  unfolding distilbert_after_fetch[OF assms(1)] distilbert_verify_eq using assms(2) by simp

lemmas fetched_defs = fetched_def bert_ner_progress_def distilbert_progress_def

lemma all_ok_bert_ner_fetch:
  "bert_ner_fetch lib_all_ok empty_world =
     (Inr (), fetched ''bert-base-ner'' bert_ner_progress
                [(''vocab.txt'', File 1), (''model.onnx'', File 434865936)])"
  by (simp add: run_defs lib_all_ok_def fetched_defs)

lemma all_ok_distilbert_fetch:
  "distilbert_fetch lib_all_ok empty_world =
     (Inr (), fetched ''distilbert-sentiment'' distilbert_progress
                [(''vocab.txt'', File 1), (''model.onnx'', File 434865936)])"
  by (simp add: run_defs lib_all_ok_def fetched_defs)

lemma empty_file_bert_ner_fetch:
  "bert_ner_fetch lib_empty_file empty_world =
     (Inr (), fetched ''bert-base-ner'' bert_ner_progress [(''model.onnx'', File 0)])"
  by (simp add: run_defs lib_empty_file_def fetched_defs)

lemma empty_file_distilbert_fetch:
  "distilbert_fetch lib_empty_file empty_world =
     (Inr (), fetched ''distilbert-sentiment'' distilbert_progress [(''model.onnx'', File 0)])"
  by (simp add: run_defs lib_empty_file_def fetched_defs)

lemma all_ok_gate:
  "import_error lib_all_ok ''torch'' = None
   \<and> import_error lib_all_ok ''transformers'' = None
   \<and> import_error lib_all_ok ''optimum'' = None"
  by (simp add: lib_all_ok_def fake_library_def)

lemma empty_file_gate:
  "import_error lib_empty_file ''torch'' = None
   \<and> import_error lib_empty_file ''transformers'' = None
   \<and> import_error lib_empty_file ''optimum'' = None"
  by (simp add: lib_empty_file_def fake_library_def)

lemma fetched_facts:
  "exists_path (fs (fetched ''bert-base-ner'' ls [(''vocab.txt'', File 1), (''model.onnx'', File n)]))
     (Path ''models/bert-base-ner'' @ [''model.onnx''])"
  "exists_path (fs (fetched ''bert-base-ner'' ls [(''vocab.txt'', File 1), (''model.onnx'', File n)]))
     (Path ''models/bert-base-ner'' @ [''vocab.txt''])"
  "exists_path (fs (fetched ''distilbert-sentiment'' ls [(''vocab.txt'', File 1), (''model.onnx'', File n)]))
     (Path ''models/distilbert-sentiment'' @ [''model.onnx''])"
  "exists_path (fs (fetched ''distilbert-sentiment'' ls [(''vocab.txt'', File 1), (''model.onnx'', File n)]))
     (Path ''models/distilbert-sentiment'' @ [''vocab.txt''])"
  "exists_path (fs (fetched ''bert-base-ner'' ls [(''model.onnx'', File n)]))
     (Path ''models/bert-base-ner'' @ [''model.onnx''])"
  "\<not> exists_path (fs (fetched ''bert-base-ner'' ls [(''model.onnx'', File n)]))
     (Path ''models/bert-base-ner'' @ [''vocab.txt''])"
  "exists_path (fs (fetched ''distilbert-sentiment'' ls [(''model.onnx'', File n)]))
     (Path ''models/distilbert-sentiment'' @ [''model.onnx''])"
  "\<not> exists_path (fs (fetched ''distilbert-sentiment'' ls [(''model.onnx'', File n)]))
     (Path ''models/distilbert-sentiment'' @ [''vocab.txt''])"
  "lookup (fs (fetched ''bert-base-ner'' ls [(''model.onnx'', File n)]))
     (Path ''models/bert-base-ner'' @ [''model.onnx'']) = Some (File n)"
  "lookup (fs (fetched ''distilbert-sentiment'' ls [(''model.onnx'', File n)]))
     (Path ''models/distilbert-sentiment'' @ [''model.onnx'']) = Some (File n)"
  "st_size d (fs (fetched ''bert-base-ner'' ls [(''vocab.txt'', File 1), (''model.onnx'', File n)]))
     (Path ''models/bert-base-ner'' @ [''model.onnx'']) = n"
  "st_size d (fs (fetched ''distilbert-sentiment'' ls [(''vocab.txt'', File 1), (''model.onnx'', File n)]))
     (Path ''models/distilbert-sentiment'' @ [''model.onnx'']) = n"
  by (simp_all add: fetched_def exists_path_def Path_def st_size_def)

lemma ner_raises_gate: "\<forall>p\<in>set required. import_error (lib_ner_raises msg) p = None"
  by (simp add: lib_ner_raises_def fake_library_def)

lemma ner_raises_bert_ner:
  "download_and_convert_bert_ner (lib_ner_raises msg) empty_world =
     (Inl (Exception msg), fetched ''bert-base-ner''
        [inbox_tray @ '' Baixando BERT NER (ONNX)...'', ''   Baixando tokenizer...''] [])"
  by (simp add: run_defs lib_ner_raises_def fetched_def)

lemma ner_raises_distilbert:
  assumes "fs w = Dir [(''models'', Dir [(''bert-base-ner'', Dir [])])]"
  shows "fst (download_and_convert_distilbert_sentiment (lib_ner_raises msg) w) = Inr True"
  using assms by (simp add: run_defs lib_ner_raises_def)

lemma ner_raises_results:
  "results (snd (main (lib_ner_raises msg) empty_world)) =
     [(''bert_ner'', False), (''distilbert'', True)]"
proof -
  have "fst (download_and_convert_distilbert_sentiment (lib_ner_raises msg)
          (snd (download_and_convert_bert_ner (lib_ner_raises msg) empty_world))) = Inr True"
    unfolding ner_raises_bert_ner snd_conv
    by (rule ner_raises_distilbert) (simp add: fetched_def)
  with main_run[OF ner_raises_gate, of msg empty_world] show ?thesis
    unfolding ner_raises_bert_ner fst_conv by auto
qed

lemma raises_and_lies_gate: "\<forall>p\<in>set required. import_error lib_raises_and_lies p = None"
  by (simp add: lib_raises_and_lies_def fake_library_def)

lemma lies_gate: "\<forall>p\<in>set required. import_error lib_lies p = None"
  by (simp add: lib_lies_def fake_library_def)

lemma raises_and_lies_bert_ner:
  "download_and_convert_bert_ner lib_raises_and_lies empty_world =
     (Inl (Exception ''network timeout''), fetched ''bert-base-ner''
        [inbox_tray @ '' Baixando BERT NER (ONNX)...'', ''   Baixando tokenizer...''] [])"
  by (simp add: run_defs lib_raises_and_lies_def fetched_def)

lemma raises_and_lies_distilbert:
  assumes "fs w = Dir [(''models'', Dir [(''bert-base-ner'', Dir [])])]"
  shows "fst (download_and_convert_distilbert_sentiment lib_raises_and_lies w) = Inr False"
  using assms by (simp add: run_defs lib_raises_and_lies_def)

lemma raises_and_lies_results:
  "results (snd (main lib_raises_and_lies empty_world)) =
     [(''bert_ner'', False), (''distilbert'', False)]"
proof -
  have "fst (download_and_convert_distilbert_sentiment lib_raises_and_lies
          (snd (download_and_convert_bert_ner lib_raises_and_lies empty_world))) = Inr False"
    unfolding raises_and_lies_bert_ner snd_conv
    by (rule raises_and_lies_distilbert) (simp add: fetched_def)
  with main_run[OF raises_and_lies_gate, of empty_world] show ?thesis
    unfolding raises_and_lies_bert_ner fst_conv by auto
qed

lemma lies_bert_ner:
  "fst (download_and_convert_bert_ner lib_lies empty_world) = Inr False"
  unfolding bert_ner_after_fetch[OF lies_bert_ner_fetch]
  by (simp add: bert_ner_verify_eq exists_path_def Path_def empty_world_def)

lemma lies_distilbert:
  assumes "fs w = Dir [(''models'', Dir [(''bert-base-ner'', Dir [(''vocab.txt'', File 1)])])]"
  shows "fst (download_and_convert_distilbert_sentiment lib_lies w) = Inr False"
  using assms by (simp add: run_defs lib_lies_def)

lemma lies_results:
  "results (snd (main lib_lies empty_world)) = [(''bert_ner'', False), (''distilbert'', False)]"
proof -
  have f: "fs (snd (download_and_convert_bert_ner lib_lies empty_world)) =
             Dir [(''models'', Dir [(''bert-base-ner'', Dir [(''vocab.txt'', File 1)])])]"
    unfolding bert_ner_after_fetch[OF lies_bert_ner_fetch]
    by (simp add: bert_ner_verify_eq exists_path_def Path_def empty_world_def)
  have "fst (download_and_convert_distilbert_sentiment lib_lies
          (snd (download_and_convert_bert_ner lib_lies empty_world))) = Inr False"
    by (rule lies_distilbert) (rule f)
  with main_run[OF lies_gate, of empty_world] lies_bert_ner show ?thesis
    by auto
qed

lemma empty_file_bert_ner:
  "download_and_convert_bert_ner lib_empty_file empty_world =
     (Inr True, empty_world\<lparr>
        fs := Dir [(''models'', Dir [(''bert-base-ner'', Dir [(''model.onnx'', File 0)])])],
        console := bert_ner_progress @
          [check_mark @ '' BERT NER salvo em: models/bert-base-ner/'',
           ''   Arquivo ONNX: 0.0 MB'',
           ''   Vocabul'' @ a_acute @ ''rio: '' @ cross_mark]\<rparr>)"
  unfolding bert_ner_after_fetch[OF empty_file_bert_ner_fetch]
  by (simp add: bert_ner_verify_eq exists_path_def Path_def st_size_def fetched_def
        empty_world_def format_mb_examples)

lemma empty_file_distilbert_fetch_second:
  assumes "fs w = Dir [(''models'', Dir [(''bert-base-ner'', Dir [(''model.onnx'', File 0)])])]"
  shows "distilbert_fetch lib_empty_file w =
     (Inr (), w\<lparr>
        fs := Dir [(''models'',
                 Dir [(''bert-base-ner'', Dir [(''model.onnx'', File 0)]),
                      (''distilbert-sentiment'', Dir [(''model.onnx'', File 0)])])],
        console := console w @ distilbert_progress\<rparr>)"
  using assms by (simp add: run_defs lib_empty_file_def distilbert_progress_def)

subsection \<open>Creating directories\<close>

lemma os_mkdir_exists:
  "lookup root p \<noteq> None \<Longrightarrow> os_mkdir root p = Inl FileExistsError"
  by (induction root p rule: os_mkdir.induct) (auto split: option.splits)

lemma os_mkdir_creates:
  "os_mkdir root p = Inr root' \<Longrightarrow> lookup root' p = Some (Dir [])"
  by (induction root p arbitrary: root' rule: os_mkdir.induct)
     (auto simp: update_conv' split: option.splits sum.splits)

lemma path_mkdir_is_dir:
  "path_mkdir parents exist_ok root p = Inr root' \<Longrightarrow> is_dir root' p"
proof (induction parents exist_ok root p arbitrary: root' rule: path_mkdir.induct)
  case (1 parents exist_ok root p)
  show ?case
  proof (cases "os_mkdir root p")
    case (Inr r)
    with "1.prems" have "root' = r"
      by (simp add: path_mkdir.simps[of parents exist_ok root p])
    with Inr show ?thesis
      by (simp add: is_dir_def os_mkdir_creates)
  next
    case (Inl e)
    show ?thesis
    proof (cases "e = FileNotFoundError")
      case True
      with Inl "1.prems" obtain r where
        np: "parents" "p \<noteq> []"
        and r: "path_mkdir True True root (butlast p) = Inr r"
        and r': "path_mkdir False exist_ok r p = Inr root'"
        by (auto simp: path_mkdir.simps[of parents exist_ok root p] split: if_splits sum.splits)
      from "1.IH"(2)[OF Inl True _ r r'] np show ?thesis
        by simp
    next
      case False
      with Inl "1.prems" have "root' = root" "is_dir root p"
        by (auto simp: path_mkdir.simps[of parents exist_ok root p]
              split: if_splits os_error.splits)
      then show ?thesis
        by simp
    qed
  qed
qed

lemma path_mkdir_existing:
  assumes "is_dir root p"
  shows "path_mkdir parents True root p = Inr root"
proof -
  from assms have "lookup root p \<noteq> None"
    by (auto simp: is_dir_def split: option.splits)
  then have "os_mkdir root p = Inl FileExistsError"
    by (rule os_mkdir_exists)
  with assms show ?thesis
    by (simp add: path_mkdir.simps[of parents True root p])
qed

lemma Path_mkdir_existing:
  "is_dir (fs w) p \<Longrightarrow> Path_mkdir parents True p w = (Inr (), w)"
  by (simp add: Path_mkdir_def path_mkdir_existing)

lemma Path_mkdir_is_dir:
  "Path_mkdir parents exist_ok p w = (Inr (), w') \<Longrightarrow> is_dir (fs w') p"
  by (auto simp: Path_mkdir_def path_mkdir_is_dir split: sum.splits prod.splits)

lemma no_OSError_bindE:
  assumes "\<And>w. fst (m w) \<noteq> Inl (OSError e q)"
      and "\<And>v w. fst (f v w) \<noteq> Inl (OSError e q)"
  shows "fst (bindE m f w) \<noteq> Inl (OSError e q)"
  using assms(1)[of w] assms(2)
  by (auto simp: bindE_def split: prod.splits sum.splits)

lemma no_OSError_extcall: "fst (extcall f w) \<noteq> Inl (OSError e q)"
  by (auto simp: extcall_def split: prod.splits sum.splits)

lemma no_OSError_print: "fst (print l w) \<noteq> Inl (OSError e q)"
  by (simp add: print_def)

lemma no_OSError_block:
  assumes "\<And>s w. s \<in> set stmts \<Longrightarrow> fst (s w) \<noteq> Inl (OSError e q)"
  shows "fst (block stmts w) \<noteq> Inl (OSError e q)"
  using assms
proof (induction stmts arbitrary: w)
  case Nil
  then show ?case by simp
next
  case (Cons s stmts)
  from Cons.prems[of s w] have "fst (s w) \<noteq> Inl (OSError e q)"
    by simp
  moreover have "fst (block stmts w') \<noteq> Inl (OSError e q)" for w'
    using Cons.IH Cons.prems by simp
  ultimately show ?case
    by (auto simp: block_Cons split: prod.splits sum.splits)
qed

lemma no_OSError_after_mkdir:
  assumes "is_dir (fs w) p"
      and "\<And>s w. s \<in> set stmts \<Longrightarrow> fst (s w) \<noteq> Inl (OSError e q)"
  shows "fst (block (from_import lib m1 n1 # from_import lib m2 n2 # print l #
                     Path_mkdir True True p # stmts) w) \<noteq> Inl (OSError e q)"
proof -
  have rest: "fst (block stmts w') \<noteq> Inl (OSError e q)" for w'
    using assms(2) by (rule no_OSError_block)
  have "Path_mkdir True True p (w\<lparr>console := console w @ [l]\<rparr>) =
          (Inr (), w\<lparr>console := console w @ [l]\<rparr>)"
    using assms(1) by (simp add: Path_mkdir_existing)
  then have "fst (block (print l # Path_mkdir True True p # stmts) w) \<noteq> Inl (OSError e q)"
    using rest by (simp add: block_Cons[of "Path_mkdir True True p"])
  moreover have "fst (block (from_import lib m n # ss) w) \<noteq> Inl (OSError e q)"
    if "fst (block ss w) \<noteq> Inl (OSError e q)" for m n ss
    using that
    by (cases "from_import_error lib m n")
       (simp_all add: block_Cons from_import_def returnE_def raiseE_def)
  ultimately show ?thesis
    by blast
qed

lemma no_OSError_two_extcalls:
  "fst (bindE (extcall f) (\<lambda>x. extcall (g x)) w) \<noteq> Inl (OSError e q)"
  by (rule no_OSError_bindE) (rule no_OSError_extcall)+

lemma bert_ner_no_OSError:
  assumes "is_dir (fs w) (Path ''models/bert-base-ner'')"
  shows "fst (download_and_convert_bert_ner lib w) \<noteq> Inl (OSError e q)"
proof -
  have "fst (bert_ner_fetch lib w) \<noteq> Inl (OSError e q)"
    unfolding bert_ner_fetch_def Let_def
    by (rule no_OSError_after_mkdir[OF assms])
       (auto simp: no_OSError_two_extcalls no_OSError_print)
  then show ?thesis
    by (cases "bert_ner_fetch lib w")
       (auto simp: download_and_convert_bert_ner_def thenE_def bindE_def bert_ner_verify_eq
             split: sum.splits)
qed

lemma distilbert_no_OSError:
  assumes "is_dir (fs w) (Path ''models/distilbert-sentiment'')"
  shows "fst (download_and_convert_distilbert_sentiment lib w) \<noteq> Inl (OSError e q)"
proof -
  have "fst (distilbert_fetch lib w) \<noteq> Inl (OSError e q)"
    unfolding distilbert_fetch_def Let_def
    by (rule no_OSError_after_mkdir[OF assms])
       (auto simp: no_OSError_two_extcalls no_OSError_print)
  then show ?thesis
    by (cases "distilbert_fetch lib w")
       (auto simp: download_and_convert_distilbert_sentiment_def thenE_def bindE_def
             distilbert_verify_eq split: sum.splits)
qed

subsection \<open>The request counter of the example client\<close>

lemma send_request_id:
  "request_id (snd (send_request self method params)) = request_id self + 1"
  by (simp add: send_request_def next_id_def Let_def)

lemma send_request_notification:
  "startswith method ''notifications/'' \<Longrightarrow>
     map_of (fst (send_request self method params)) ''id'' = None"
  by (simp add: send_request_def next_id_def Let_def)

lemma send_request_call:
  "\<not> startswith method ''notifications/'' \<Longrightarrow>
     map_of (fst (send_request self method params)) ''id'' = Some (JInt (request_id self + 1))"
  by (simp add: send_request_def next_id_def Let_def)

lemma id_of_send_request:
  "id_of (fst (send_request self method params)) =
     (if startswith method ''notifications/'' then None else Some (request_id self + 1))"
  by (simp add: id_of_def send_request_notification send_request_call)

lemma send_requests_ids:
  "sorted_wrt (<) (ids_of (fst (send_requests self todo)))
   \<and> (\<forall>i\<in>set (ids_of (fst (send_requests self todo))). request_id self < i)
   \<and> request_id (snd (send_requests self todo)) = request_id self + int (length todo)"
proof (induction todo arbitrary: self)
  case Nil
  show ?case
    by (simp add: ids_of_def List.map_filter_simps)
next
  case (Cons c todo)
  obtain m ps where c: "c = (m, ps)"
    by (cases c)
  obtain request self' where s: "send_request self m ps = (request, self')"
    by (cases "send_request self m ps")
  obtain requests self'' where r: "send_requests self' todo = (requests, self'')"
    by (cases "send_requests self' todo")
  have i: "request_id self' = request_id self + 1"
    using send_request_id[of self m ps] s by simp
  have q: "id_of request =
     (if startswith m ''notifications/'' then None else Some (request_id self + 1))"
    using id_of_send_request[of self m ps] s by simp
  from Cons.IH[of self'] r i have
    ih1: "sorted_wrt (<) (ids_of requests)"
    and ih2: "\<forall>i\<in>set (ids_of requests). request_id self + 1 < i"
    and ih3: "request_id self'' = request_id self + 1 + int (length todo)"
    by simp_all
  show ?case
    using ih1 ih2 ih3 q
    by (auto simp: c s r ids_of_def List.map_filter_simps)
qed

section \<open>The claims about \<open>scripts/download_nlp_models.py\<close>\<close>

text \<open>
  C1, as stated. The claim says that an outcome with success = false and the captured
  error detail is recorded. The detail is not recorded: \<open>results\<close> maps \<open>bert_ner\<close> to
  \<open>False\<close> and nothing else, so two runs whose first job raises \<open>network timeout\<close> and
  \<open>disk full\<close> leave the same report.
\<close>

theorem error_detail_is_not_recorded_counterexample:
  "fst (download_and_convert_bert_ner (lib_ner_raises ''network timeout'') empty_world) =
     Inl (Exception ''network timeout'')
   \<and> fst (download_and_convert_bert_ner (lib_ner_raises ''disk full'') empty_world) =
     Inl (Exception ''disk full'')
   \<and> results (snd (main (lib_ner_raises ''network timeout'') empty_world)) =
       [(''bert_ner'', False), (''distilbert'', True)]
   \<and> results (snd (main (lib_ner_raises ''disk full'') empty_world)) =
       [(''bert_ner'', False), (''distilbert'', True)]"
  by (simp add: ner_raises_bert_ner ner_raises_results)

text \<open>
  C1, as amended. In a run that passes the dependency check, if
  \<open>download_and_convert_bert_ner\<close> raises \<open>e\<close>, then \<open>main\<close> does not end with \<open>e\<close>: the
  handler catches it, records \<open>results['bert_ner'] = False\<close>, the flag alone, and prints
  the line \<open>Erro ao processar BERT NER\<close> with \<open>str(e)\<close>, so the error detail is on the
  console only; \<open>download_and_convert_distilbert_sentiment\<close> is then called, once; and
  the run ends in the \<open>sys.exit(1)\<close> of the summary. What a download function returns
  or raises depends on the directory tree and the world outside alone (\<open>framed_same\<close>),
  and the banner and the dependency check leave both as they are; so the hypothesis is
  stated for the function started in the world \<open>main\<close> starts in.
\<close>

theorem bert_ner_error_is_isolated:
  assumes "\<forall>p\<in>set required. import_error lib p = None"
      and "fst (download_and_convert_bert_ner lib w) = Inl e"
  shows "fst (main lib w) \<noteq> Inl e
       \<and> fst (main lib w) = Inl (SystemExit 1)
       \<and> map_of (results (snd (main lib w))) ''bert_ner'' = Some False
       \<and> (\<exists>ls. console (snd (main lib w)) = console w @ ls
              \<and> cross_mark @ '' Erro ao processar BERT NER: '' @ str_exn lib e \<in> set ls)
       \<and> calls (snd (main lib w)) =
           calls w @ [''download_and_convert_bert_ner'',
                      ''download_and_convert_distilbert_sentiment'']"
proof -
  have "isinstance_Exception e"
    using framed_frame(4)[OF framed_bert_ner, of lib w _ _ e] assms(2)
    by (cases "download_and_convert_bert_ner lib w") simp
  then have "e \<noteq> SystemExit 1"
    by auto
  with main_run[OF assms(1), of w] assms(2) show ?thesis
    by (auto simp del: set_append)
qed

text \<open>
  C1 as amended, at the library whose first tokenizer download raises
  \<open>network timeout\<close>.
\<close>

theorem bert_ner_error_is_isolated_witness:
  "import_error lib_ner_fails ''torch'' = None
   \<and> import_error lib_ner_fails ''transformers'' = None
   \<and> import_error lib_ner_fails ''optimum'' = None
   \<and> fst (download_and_convert_bert_ner lib_ner_fails empty_world) = Inl (Exception ''network timeout'')
   \<and> fst (main lib_ner_fails empty_world) = Inl (SystemExit 1)
   \<and> map_of (results (snd (main lib_ner_fails empty_world))) ''bert_ner'' = Some False
   \<and> (\<exists>ls. console (snd (main lib_ner_fails empty_world)) = console empty_world @ ls
          \<and> cross_mark @ '' Erro ao processar BERT NER: network timeout'' \<in> set ls)
   \<and> calls (snd (main lib_ner_fails empty_world)) =
        [''download_and_convert_bert_ner'', ''download_and_convert_distilbert_sentiment'']"
proof -
  have h0: "import_error lib_ner_fails ''torch'' = None
     \<and> import_error lib_ner_fails ''transformers'' = None
     \<and> import_error lib_ner_fails ''optimum'' = None"
    by (simp add: lib_ner_fails_def fake_library_def)
  then have h1: "\<forall>p\<in>set required. import_error lib_ner_fails p = None"
    by (simp add: required_def)
  have h2: "fst (download_and_convert_bert_ner lib_ner_fails empty_world) =
              Inl (Exception ''network timeout'')"
    by (simp add: download_and_convert_bert_ner_def bert_ner_fetch_def thenE_def bindE_def
          block_Cons from_import_def returnE_def raiseE_def Path_mkdir_def Path_def
          path_mkdir.simps extcall_def is_dir_def print_def
          lib_ner_fails_def fake_library_def empty_world_def)
  show ?thesis
    using bert_ner_error_is_isolated[OF h1 h2] h0 h2
    by (simp add: empty_world_def)
qed



text \<open>
  C3. In a run that passes the dependency check, whatever the two download functions
  do, \<open>results\<close> ends with exactly two entries, \<open>bert_ner\<close> then \<open>distilbert\<close>, each
  the outcome of its own function (true exactly when it returned \<open>True\<close>), and each
  function has been called once, in that order.
\<close>

theorem one_outcome_per_artifact:
  assumes "\<forall>p\<in>set required. import_error lib p = None"
  shows "results (snd (main lib w)) =
           [(''bert_ner'', fst (download_and_convert_bert_ner lib w) = Inr True),
            (''distilbert'',
             fst (download_and_convert_distilbert_sentiment lib
                    (snd (download_and_convert_bert_ner lib w))) = Inr True)]
       \<and> map fst (results (snd (main lib w))) = [''bert_ner'', ''distilbert'']
       \<and> distinct (map fst (results (snd (main lib w))))
       \<and> calls (snd (main lib w)) =
           calls w @ [''download_and_convert_bert_ner'',
                      ''download_and_convert_distilbert_sentiment'']"
  using main_run[OF assms, of w] by auto

text \<open>
  C3 at the library whose first tokenizer download raises: the first job fails, the
  second succeeds.
\<close>

theorem one_outcome_per_artifact_witness:
  "import_error lib_ner_fails ''torch'' = None
   \<and> import_error lib_ner_fails ''transformers'' = None
   \<and> import_error lib_ner_fails ''optimum'' = None
   \<and> results (snd (main lib_ner_fails empty_world)) =
        [(''bert_ner'', False), (''distilbert'', True)]
   \<and> map fst (results (snd (main lib_ner_fails empty_world))) = [''bert_ner'', ''distilbert'']
   \<and> distinct (map fst (results (snd (main lib_ner_fails empty_world))))
   \<and> calls (snd (main lib_ner_fails empty_world)) =
        [''download_and_convert_bert_ner'', ''download_and_convert_distilbert_sentiment'']"
proof -
  have h0: "import_error lib_ner_fails ''torch'' = None
     \<and> import_error lib_ner_fails ''transformers'' = None
     \<and> import_error lib_ner_fails ''optimum'' = None"
    by (simp add: lib_ner_fails_def fake_library_def)
  then have h1: "\<forall>p\<in>set required. import_error lib_ner_fails p = None"
    by (simp add: required_def)
  have j1: "download_and_convert_bert_ner lib_ner_fails empty_world =
              (Inl (Exception ''network timeout''),
               empty_world\<lparr>fs := Dir [(''models'', Dir [(''bert-base-ner'', Dir [])])],
                 console := [inbox_tray @ '' Baixando BERT NER (ONNX)...'',
                             ''   Baixando tokenizer...'']\<rparr>)"
    by (simp add: run_defs lib_ner_fails_def)
  have j2: "fst (download_and_convert_distilbert_sentiment lib_ner_fails
              (empty_world\<lparr>fs := Dir [(''models'', Dir [(''bert-base-ner'', Dir [])])],
                 console := [inbox_tray @ '' Baixando BERT NER (ONNX)...'',
                             ''   Baixando tokenizer...'']\<rparr>)) = Inr True"
    by (simp add: run_defs lib_ner_fails_def)
  show ?thesis
    using one_outcome_per_artifact[OF h1, of empty_world] h0
    by (simp add: j1 j2) (simp add: empty_world_def)
qed

text \<open>
  C4, as stated. The claim says that the recorded outcome has, with success = false, a
  detail message that tells a missing model file from a provider error. The recorded
  outcome has no message: \<open>results\<close> holds \<open>False\<close> in both cases, so a run whose
  first job writes no \<open>model.onnx\<close> and a run whose first job raises leave the same
  report.
\<close>

theorem missing_file_detail_is_not_recorded_counterexample:
  "fst (download_and_convert_bert_ner lib_lies empty_world) = Inr False
   \<and> fst (download_and_convert_bert_ner lib_raises_and_lies empty_world) =
       Inl (Exception ''network timeout'')
   \<and> results (snd (main lib_lies empty_world)) =
       [(''bert_ner'', False), (''distilbert'', False)]
   \<and> results (snd (main lib_raises_and_lies empty_world)) =
       [(''bert_ner'', False), (''distilbert'', False)]"
  by (simp add: lies_bert_ner raises_and_lies_bert_ner lies_results raises_and_lies_results)

text \<open>
  C4, as amended. When the library calls of a download function all return and leave no
  \<open>model.onnx\<close> in the output directory, the function prints
  \<open>Erro: arquivo model.onnx nao foi criado\<close> and returns \<open>False\<close>, and \<open>main\<close> records
  \<open>False\<close> for it, the flag alone. The message is on the console only; as a line it
  differs from the line \<open>Erro ao processar ...\<close> that \<open>main\<close> prints for an exception,
  whatever the exception is.
\<close>

theorem missing_model_file_is_a_failure:
  "(bert_ner_fetch lib w = (Inr (), w1)
      \<and> \<not> exists_path (fs w1) (Path ''models/bert-base-ner'' @ [''model.onnx''])
    \<longrightarrow> download_and_convert_bert_ner lib w =
          (Inr False, w1\<lparr>console := console w1 @
             [cross_mark @ '' Erro: arquivo model.onnx n'' @ a_tilde @ ''o foi criado'']\<rparr>))
   \<and> (distilbert_fetch lib w = (Inr (), w1)
      \<and> \<not> exists_path (fs w1) (Path ''models/distilbert-sentiment'' @ [''model.onnx''])
    \<longrightarrow> download_and_convert_distilbert_sentiment lib w =
          (Inr False, w1\<lparr>console := console w1 @
             [cross_mark @ '' Erro: arquivo model.onnx n'' @ a_tilde @ ''o foi criado'']\<rparr>))
   \<and> cross_mark @ '' Erro: arquivo model.onnx n'' @ a_tilde @ ''o foi criado'' \<noteq>
       cross_mark @ '' Erro ao processar BERT NER: '' @ str_exn lib e
   \<and> cross_mark @ '' Erro: arquivo model.onnx n'' @ a_tilde @ ''o foi criado'' \<noteq>
       cross_mark @ '' Erro ao processar DistilBERT Sentiment: '' @ str_exn lib e
   \<and> ((\<forall>p\<in>set required. import_error lib p = None)
      \<and> bert_ner_fetch lib w = (Inr (), w1)
      \<and> \<not> exists_path (fs w1) (Path ''models/bert-base-ner'' @ [''model.onnx''])
    \<longrightarrow> map_of (results (snd (main lib w))) ''bert_ner'' = Some False)
   \<and> ((\<forall>p\<in>set required. import_error lib p = None)
      \<and> distilbert_fetch lib (snd (download_and_convert_bert_ner lib w)) = (Inr (), w1)
      \<and> \<not> exists_path (fs w1) (Path ''models/distilbert-sentiment'' @ [''model.onnx''])
    \<longrightarrow> map_of (results (snd (main lib w))) ''distilbert'' = Some False)"
proof (intro conjI impI)
  assume "bert_ner_fetch lib w = (Inr (), w1)
      \<and> \<not> exists_path (fs w1) (Path ''models/bert-base-ner'' @ [''model.onnx''])"
  then show "download_and_convert_bert_ner lib w =
          (Inr False, w1\<lparr>console := console w1 @
             [cross_mark @ '' Erro: arquivo model.onnx n'' @ a_tilde @ ''o foi criado'']\<rparr>)"
    by (simp add: bert_ner_after_fetch bert_ner_verify_eq)
next
  assume "distilbert_fetch lib w = (Inr (), w1)
      \<and> \<not> exists_path (fs w1) (Path ''models/distilbert-sentiment'' @ [''model.onnx''])"
  then show "download_and_convert_distilbert_sentiment lib w =
          (Inr False, w1\<lparr>console := console w1 @
             [cross_mark @ '' Erro: arquivo model.onnx n'' @ a_tilde @ ''o foi criado'']\<rparr>)"
    by (simp add: distilbert_after_fetch distilbert_verify_eq)
next
  show "cross_mark @ '' Erro: arquivo model.onnx n'' @ a_tilde @ ''o foi criado'' \<noteq>
       cross_mark @ '' Erro ao processar BERT NER: '' @ str_exn lib e"
    by simp
next
  show "cross_mark @ '' Erro: arquivo model.onnx n'' @ a_tilde @ ''o foi criado'' \<noteq>
       cross_mark @ '' Erro ao processar DistilBERT Sentiment: '' @ str_exn lib e"
    by simp
next
  assume a: "(\<forall>p\<in>set required. import_error lib p = None)
      \<and> bert_ner_fetch lib w = (Inr (), w1)
      \<and> \<not> exists_path (fs w1) (Path ''models/bert-base-ner'' @ [''model.onnx''])"
  then have "fst (download_and_convert_bert_ner lib w) = Inr False"
    by (simp add: bert_ner_after_fetch bert_ner_verify_eq)
  with a main_run[of lib w] show "map_of (results (snd (main lib w))) ''bert_ner'' = Some False"
    by auto
next
  assume a: "(\<forall>p\<in>set required. import_error lib p = None)
      \<and> distilbert_fetch lib (snd (download_and_convert_bert_ner lib w)) = (Inr (), w1)
      \<and> \<not> exists_path (fs w1) (Path ''models/distilbert-sentiment'' @ [''model.onnx''])"
  then have "fst (download_and_convert_distilbert_sentiment lib
                    (snd (download_and_convert_bert_ner lib w))) = Inr False"
    by (simp add: distilbert_after_fetch distilbert_verify_eq)
  with a main_run[of lib w] show "map_of (results (snd (main lib w))) ''distilbert'' = Some False"
    by auto
qed

text \<open>C4 as amended, at the library that reports success and writes no model.\<close>

theorem missing_model_file_is_a_failure_witness:
  "bert_ner_fetch lib_lies empty_world =
     (Inr (), empty_world\<lparr>
        fs := Dir [(''models'', Dir [(''bert-base-ner'', Dir [(''vocab.txt'', File 1)])])],
        console := [inbox_tray @ '' Baixando BERT NER (ONNX)...'',
                    ''   Baixando tokenizer...'',
                    ''   Baixando modelo ONNX (j'' @ a_acute @ '' convertido)...'']\<rparr>)
   \<and> \<not> exists_path (Dir [(''models'', Dir [(''bert-base-ner'', Dir [(''vocab.txt'', File 1)])])])
          (Path ''models/bert-base-ner'' @ [''model.onnx''])
   \<and> download_and_convert_bert_ner lib_lies empty_world =
       (Inr False, empty_world\<lparr>
          fs := Dir [(''models'', Dir [(''bert-base-ner'', Dir [(''vocab.txt'', File 1)])])],
          console := [inbox_tray @ '' Baixando BERT NER (ONNX)...'',
                      ''   Baixando tokenizer...'',
                      ''   Baixando modelo ONNX (j'' @ a_acute @ '' convertido)...'',
                      cross_mark @ '' Erro: arquivo model.onnx n'' @ a_tilde @ ''o foi criado'']\<rparr>)
   \<and> distilbert_fetch lib_lies empty_world =
     (Inr (), empty_world\<lparr>
        fs := Dir [(''models'', Dir [(''distilbert-sentiment'', Dir [(''vocab.txt'', File 1)])])],
        console := [''\<newline>'' @ inbox_tray @ '' Baixando DistilBERT Sentiment Multilingual...'',
                    ''   Baixando tokenizer...'',
                    ''   Convertendo para ONNX (pode demorar alguns minutos)...'']\<rparr>)
   \<and> download_and_convert_distilbert_sentiment lib_lies empty_world =
       (Inr False, empty_world\<lparr>
          fs := Dir [(''models'', Dir [(''distilbert-sentiment'', Dir [(''vocab.txt'', File 1)])])],
          console := [''\<newline>'' @ inbox_tray @ '' Baixando DistilBERT Sentiment Multilingual...'',
                      ''   Baixando tokenizer...'',
                      ''   Convertendo para ONNX (pode demorar alguns minutos)...'',
                      cross_mark @ '' Erro: arquivo model.onnx n'' @ a_tilde @ ''o foi criado'']\<rparr>)
   \<and> import_error lib_lies ''torch'' = None
   \<and> import_error lib_lies ''transformers'' = None
   \<and> import_error lib_lies ''optimum'' = None
   \<and> map_of (results (snd (main lib_lies empty_world))) ''bert_ner'' = Some False"
proof -
  let ?w1 = "empty_world\<lparr>
        fs := Dir [(''models'', Dir [(''bert-base-ner'', Dir [(''vocab.txt'', File 1)])])],
        console := [inbox_tray @ '' Baixando BERT NER (ONNX)...'',
                    ''   Baixando tokenizer...'',
                    ''   Baixando modelo ONNX (j'' @ a_acute @ '' convertido)...'']\<rparr>"
  let ?w2 = "empty_world\<lparr>
        fs := Dir [(''models'', Dir [(''distilbert-sentiment'', Dir [(''vocab.txt'', File 1)])])],
        console := [''\<newline>'' @ inbox_tray @ '' Baixando DistilBERT Sentiment Multilingual...'',
                    ''   Baixando tokenizer...'',
                    ''   Convertendo para ONNX (pode demorar alguns minutos)...'']\<rparr>"
  have n1: "\<not> exists_path (fs ?w1) (Path ''models/bert-base-ner'' @ [''model.onnx''])"
    by (simp add: exists_path_def Path_def)
  have n2: "\<not> exists_path (fs ?w2) (Path ''models/distilbert-sentiment'' @ [''model.onnx''])"
    by (simp add: exists_path_def Path_def)
  have g0: "import_error lib_lies ''torch'' = None
     \<and> import_error lib_lies ''transformers'' = None
     \<and> import_error lib_lies ''optimum'' = None"
    by (simp add: lib_lies_def fake_library_def)
  then have g1: "\<forall>p\<in>set required. import_error lib_lies p = None"
    by (simp add: required_def)
  note t = missing_model_file_is_a_failure[of lib_lies empty_world]
  have c1: "download_and_convert_bert_ner lib_lies empty_world =
          (Inr False, ?w1\<lparr>console := console ?w1 @
             [cross_mark @ '' Erro: arquivo model.onnx n'' @ a_tilde @ ''o foi criado'']\<rparr>)"
    using t[of ?w1] lies_bert_ner_fetch n1 by blast
  have c2: "download_and_convert_distilbert_sentiment lib_lies empty_world =
          (Inr False, ?w2\<lparr>console := console ?w2 @
             [cross_mark @ '' Erro: arquivo model.onnx n'' @ a_tilde @ ''o foi criado'']\<rparr>)"
    using t[of ?w2] lies_distilbert_fetch n2 by blast
  have c3: "map_of (results (snd (main lib_lies empty_world))) ''bert_ner'' = Some False"
    using t[of ?w1] lies_bert_ner_fetch n1 g1 by blast
  show ?thesis
    using lies_bert_ner_fetch lies_distilbert_fetch n1 c1 c2 c3 g0
    by simp
qed

text \<open>
  C5. In a run that passes the dependency check, \<open>all(results.values())\<close> is the
  conjunction of the two recorded flags; \<open>main\<close> returns normally when it holds and ends
  in \<open>sys.exit(1)\<close> when it does not, so the exit status is 0 in the first case and 1 in
  the second.
\<close>

theorem exit_status_is_conjunction:
  assumes "\<forall>p\<in>set required. import_error lib p = None"
  shows "list_all id (map snd (results (snd (main lib w)))) =
           (map_of (results (snd (main lib w))) ''bert_ner'' = Some True
            \<and> map_of (results (snd (main lib w))) ''distilbert'' = Some True)
       \<and> fst (main lib w) =
           (if list_all id (map snd (results (snd (main lib w))))
            then Inr () else Inl (SystemExit 1))
       \<and> exit_status (fst (main lib w)) =
           (if list_all id (map snd (results (snd (main lib w)))) then 0 else 1)"
  using main_run[OF assms, of w] by auto

text \<open>C5 at the library where both jobs succeed, and at the one where both write no model.\<close>

theorem exit_status_is_conjunction_witness:
  "import_error lib_all_ok ''torch'' = None
   \<and> import_error lib_all_ok ''transformers'' = None
   \<and> import_error lib_all_ok ''optimum'' = None
   \<and> results (snd (main lib_all_ok empty_world)) = [(''bert_ner'', True), (''distilbert'', True)]
   \<and> list_all id (map snd (results (snd (main lib_all_ok empty_world))))
   \<and> fst (main lib_all_ok empty_world) = Inr ()
   \<and> exit_status (fst (main lib_all_ok empty_world)) = 0
   \<and> import_error lib_lies ''torch'' = None
   \<and> import_error lib_lies ''transformers'' = None
   \<and> import_error lib_lies ''optimum'' = None
   \<and> results (snd (main lib_lies empty_world)) = [(''bert_ner'', False), (''distilbert'', False)]
   \<and> \<not> list_all id (map snd (results (snd (main lib_lies empty_world))))
   \<and> fst (main lib_lies empty_world) = Inl (SystemExit 1)
   \<and> exit_status (fst (main lib_lies empty_world)) = 1"
proof -
  have a0: "import_error lib_all_ok ''torch'' = None
     \<and> import_error lib_all_ok ''transformers'' = None
     \<and> import_error lib_all_ok ''optimum'' = None"
    by (simp add: lib_all_ok_def fake_library_def)
  then have a1: "\<forall>p\<in>set required. import_error lib_all_ok p = None"
    by (simp add: required_def)
  have b0: "import_error lib_lies ''torch'' = None
     \<and> import_error lib_lies ''transformers'' = None
     \<and> import_error lib_lies ''optimum'' = None"
    by (simp add: lib_lies_def fake_library_def)
  then have b1: "\<forall>p\<in>set required. import_error lib_lies p = None"
    by (simp add: required_def)
  have a2: "results (snd (main lib_all_ok empty_world)) = [(''bert_ner'', True), (''distilbert'', True)]"
    using main_run[OF a1, of empty_world]
    by (auto simp: run_defs lib_all_ok_def)
  have b2: "results (snd (main lib_lies empty_world)) = [(''bert_ner'', False), (''distilbert'', False)]"
    using main_run[OF b1, of empty_world]
    by (auto simp: run_defs lib_lies_def)
  show ?thesis
    using exit_status_is_conjunction[OF a1, of empty_world]
      exit_status_is_conjunction[OF b1, of empty_world] a0 b0
    by (simp add: a2 b2)
qed

text \<open>
  C6. \<open>Path(output_dir).mkdir(parents=True, exist_ok=True)\<close> on a directory that
  exists returns without an error and changes nothing; when it returns, the directory
  exists, so running it again right away returns as well. Hence a download function
  started where its output directory already exists (as it does when the function has
  run before and nothing removed the directory since) raises no \<open>OSError\<close>, neither
  \<open>FileExistsError\<close> nor any other: what it raises, if anything, comes from an import
  or a library call.
\<close>

theorem directory_creation_is_idempotent:
  "(is_dir (fs w) p \<longrightarrow> Path_mkdir True True p w = (Inr (), w))
   \<and> (Path_mkdir True True p w = (Inr (), w')
      \<longrightarrow> is_dir (fs w') p \<and> Path_mkdir True True p w' = (Inr (), w'))
   \<and> (is_dir (fs w) (Path ''models/bert-base-ner'')
      \<longrightarrow> fst (download_and_convert_bert_ner lib w) \<noteq> Inl (OSError e q))
   \<and> (is_dir (fs w) (Path ''models/distilbert-sentiment'')
      \<longrightarrow> fst (download_and_convert_distilbert_sentiment lib w) \<noteq> Inl (OSError e q))"
  using Path_mkdir_existing[of w p True] Path_mkdir_is_dir[of True True p w w']
    Path_mkdir_existing[of w' p True] bert_ner_no_OSError[of w lib e q]
    distilbert_no_OSError[of w lib e q]
  by blast

text \<open>
  C6 in the empty working directory, and on the second of two runs in a row of each
  download function.
\<close>

theorem directory_creation_is_idempotent_witness:
  "Path_mkdir True True (Path ''models/bert-base-ner'') empty_world =
     (Inr (), fetched ''bert-base-ner'' [] [])
   \<and> is_dir (fs (fetched ''bert-base-ner'' [] [])) (Path ''models/bert-base-ner'')
   \<and> Path_mkdir True True (Path ''models/bert-base-ner'') (fetched ''bert-base-ner'' [] []) =
       (Inr (), fetched ''bert-base-ner'' [] [])
   \<and> is_dir (fs (snd (download_and_convert_bert_ner lib_all_ok empty_world)))
        (Path ''models/bert-base-ner'')
   \<and> fst (download_and_convert_bert_ner lib_all_ok
             (snd (download_and_convert_bert_ner lib_all_ok empty_world))) \<noteq>
       Inl (OSError FileExistsError (Path ''models/bert-base-ner''))
   \<and> is_dir (fs (snd (download_and_convert_distilbert_sentiment lib_all_ok empty_world)))
        (Path ''models/distilbert-sentiment'')
   \<and> fst (download_and_convert_distilbert_sentiment lib_all_ok
             (snd (download_and_convert_distilbert_sentiment lib_all_ok empty_world))) \<noteq>
       Inl (OSError FileExistsError (Path ''models/distilbert-sentiment''))"
proof -
  let ?p = "Path ''models/bert-base-ner''"
  let ?W = "fetched ''bert-base-ner'' [] []"
  let ?v1 = "snd (download_and_convert_bert_ner lib_all_ok empty_world)"
  let ?v2 = "snd (download_and_convert_distilbert_sentiment lib_all_ok empty_world)"
  have m: "Path_mkdir True True ?p empty_world = (Inr (), ?W)"
    by (simp add: Path_mkdir_def Path_def path_mkdir.simps is_dir_def fetched_def empty_world_def)
  have d1: "is_dir (fs ?v1) ?p"
    unfolding bert_ner_after_fetch[OF all_ok_bert_ner_fetch]
    by (simp add: bert_ner_verify_eq fetched_def is_dir_def exists_path_def Path_def)
  have d2: "is_dir (fs ?v2) (Path ''models/distilbert-sentiment'')"
    unfolding distilbert_after_fetch[OF all_ok_distilbert_fetch]
    by (simp add: distilbert_verify_eq fetched_def is_dir_def exists_path_def Path_def)
  from directory_creation_is_idempotent[of empty_world ?p ?W] m
  have a: "is_dir (fs ?W) ?p \<and> Path_mkdir True True ?p ?W = (Inr (), ?W)"
    by blast
  from directory_creation_is_idempotent[of ?v1 ?p ?W lib_all_ok FileExistsError ?p] d1
  have b: "fst (download_and_convert_bert_ner lib_all_ok ?v1) \<noteq> Inl (OSError FileExistsError ?p)"
    by blast
  from directory_creation_is_idempotent[of ?v2 ?p ?W lib_all_ok FileExistsError
        "Path ''models/distilbert-sentiment''"] d2
  have c: "fst (download_and_convert_distilbert_sentiment lib_all_ok ?v2) \<noteq>
             Inl (OSError FileExistsError (Path ''models/distilbert-sentiment''))"
    by blast
  show ?thesis
    using m a b c d1 d2 by blast
qed

text \<open>
  C7, as stated. The claim says that the outcome recorded in the run report carries,
  beyond the success flag, the size of the produced file. It does not: \<open>results\<close> maps
  each artifact to a boolean and nothing else, so two runs whose model files have
  1000000 and 5000000 bytes leave the same report.
\<close>

theorem report_carries_no_size_counterexample:
  "lookup (fs (snd (main (lib_size 1000000) empty_world)))
       [''models'', ''bert-base-ner'', ''model.onnx''] = Some (File 1000000)
   \<and> lookup (fs (snd (main (lib_size 5000000) empty_world)))
       [''models'', ''bert-base-ner'', ''model.onnx''] = Some (File 5000000)
   \<and> results (snd (main (lib_size 1000000) empty_world)) =
       [(''bert_ner'', True), (''distilbert'', True)]
   \<and> results (snd (main (lib_size 5000000) empty_world)) =
       [(''bert_ner'', True), (''distilbert'', True)]"
  by (simp add: size_main_results size_main_fs)

text \<open>
  C7, as amended. When the library calls of a download function all return and
  \<open>model.onnx\<close> is in the output directory, the function returns \<open>True\<close>, which is
  what \<open>main\<close> records for it, and prints three lines, the second of which is
  \<open>Arquivo ONNX:\<close> with the size of the file in units of \<open>1024 * 1024\<close> bytes to one
  decimal place. The size is on the console only; the report holds the flag.
\<close>

theorem size_is_printed_flag_is_recorded:
  "(bert_ner_fetch lib w = (Inr (), w1)
      \<and> exists_path (fs w1) (Path ''models/bert-base-ner'' @ [''model.onnx''])
    \<longrightarrow> fst (download_and_convert_bert_ner lib w) = Inr True
      \<and> (\<exists>l1 l3. console (snd (download_and_convert_bert_ner lib w)) = console w1 @
            [l1,
             ''   Arquivo ONNX: '' @
               format_mb (st_size (dir_st_size lib) (fs w1)
                            (Path ''models/bert-base-ner'' @ [''model.onnx''])) @ '' MB'',
             l3]))
   \<and> (distilbert_fetch lib w = (Inr (), w1)
      \<and> exists_path (fs w1) (Path ''models/distilbert-sentiment'' @ [''model.onnx''])
    \<longrightarrow> fst (download_and_convert_distilbert_sentiment lib w) = Inr True
      \<and> (\<exists>l1 l3. console (snd (download_and_convert_distilbert_sentiment lib w)) = console w1 @
            [l1,
             ''   Arquivo ONNX: '' @
               format_mb (st_size (dir_st_size lib) (fs w1)
                            (Path ''models/distilbert-sentiment'' @ [''model.onnx''])) @ '' MB'',
             l3]))
   \<and> ((\<forall>p\<in>set required. import_error lib p = None)
      \<and> bert_ner_fetch lib w = (Inr (), w1)
      \<and> exists_path (fs w1) (Path ''models/bert-base-ner'' @ [''model.onnx''])
    \<longrightarrow> map_of (results (snd (main lib w))) ''bert_ner'' = Some True)
   \<and> ((\<forall>p\<in>set required. import_error lib p = None)
      \<and> distilbert_fetch lib (snd (download_and_convert_bert_ner lib w)) = (Inr (), w1)
      \<and> exists_path (fs w1) (Path ''models/distilbert-sentiment'' @ [''model.onnx''])
    \<longrightarrow> map_of (results (snd (main lib w))) ''distilbert'' = Some True)"
proof (intro conjI impI)
  assume a: "bert_ner_fetch lib w = (Inr (), w1)
      \<and> exists_path (fs w1) (Path ''models/bert-base-ner'' @ [''model.onnx''])"
  show "fst (download_and_convert_bert_ner lib w) = Inr True"
    using a by (simp add: bert_ner_present)
  show "\<exists>l1 l3. console (snd (download_and_convert_bert_ner lib w)) = console w1 @
            [l1,
             ''   Arquivo ONNX: '' @
               format_mb (st_size (dir_st_size lib) (fs w1)
                            (Path ''models/bert-base-ner'' @ [''model.onnx''])) @ '' MB'',
             l3]"
    using a by (simp add: bert_ner_present)
next
  assume a: "distilbert_fetch lib w = (Inr (), w1)
      \<and> exists_path (fs w1) (Path ''models/distilbert-sentiment'' @ [''model.onnx''])"
  show "fst (download_and_convert_distilbert_sentiment lib w) = Inr True"
    using a by (simp add: distilbert_present)
  show "\<exists>l1 l3. console (snd (download_and_convert_distilbert_sentiment lib w)) = console w1 @
            [l1,
             ''   Arquivo ONNX: '' @
               format_mb (st_size (dir_st_size lib) (fs w1)
                            (Path ''models/distilbert-sentiment'' @ [''model.onnx''])) @ '' MB'',
             l3]"
    using a by (simp add: distilbert_present)
next
  assume a: "(\<forall>p\<in>set required. import_error lib p = None)
      \<and> bert_ner_fetch lib w = (Inr (), w1)
      \<and> exists_path (fs w1) (Path ''models/bert-base-ner'' @ [''model.onnx''])"
  then have "fst (download_and_convert_bert_ner lib w) = Inr True"
    by (simp add: bert_ner_present)
  with a main_run[of lib w] show "map_of (results (snd (main lib w))) ''bert_ner'' = Some True"
    by auto
next
  assume a: "(\<forall>p\<in>set required. import_error lib p = None)
      \<and> distilbert_fetch lib (snd (download_and_convert_bert_ner lib w)) = (Inr (), w1)
      \<and> exists_path (fs w1) (Path ''models/distilbert-sentiment'' @ [''model.onnx''])"
  then have "fst (download_and_convert_distilbert_sentiment lib
                    (snd (download_and_convert_bert_ner lib w))) = Inr True"
    by (simp add: distilbert_present)
  with a main_run[of lib w] show "map_of (results (snd (main lib w))) ''distilbert'' = Some True"
    by auto
qed

text \<open>C7 as amended, at the library where both jobs succeed with a model of 434865936 bytes.\<close>

theorem size_is_printed_flag_is_recorded_witness:
  "bert_ner_fetch lib_all_ok empty_world =
     (Inr (), fetched ''bert-base-ner'' bert_ner_progress
                [(''vocab.txt'', File 1), (''model.onnx'', File 434865936)])
   \<and> exists_path (fs (fetched ''bert-base-ner'' bert_ner_progress
                        [(''vocab.txt'', File 1), (''model.onnx'', File 434865936)]))
        (Path ''models/bert-base-ner'' @ [''model.onnx''])
   \<and> fst (download_and_convert_bert_ner lib_all_ok empty_world) = Inr True
   \<and> (\<exists>l1 l3. console (snd (download_and_convert_bert_ner lib_all_ok empty_world)) =
          bert_ner_progress @ [l1, ''   Arquivo ONNX: 414.7 MB'', l3])
   \<and> distilbert_fetch lib_all_ok empty_world =
     (Inr (), fetched ''distilbert-sentiment'' distilbert_progress
                [(''vocab.txt'', File 1), (''model.onnx'', File 434865936)])
   \<and> exists_path (fs (fetched ''distilbert-sentiment'' distilbert_progress
                        [(''vocab.txt'', File 1), (''model.onnx'', File 434865936)]))
        (Path ''models/distilbert-sentiment'' @ [''model.onnx''])
   \<and> fst (download_and_convert_distilbert_sentiment lib_all_ok empty_world) = Inr True
   \<and> (\<exists>l1 l3. console (snd (download_and_convert_distilbert_sentiment lib_all_ok empty_world)) =
          distilbert_progress @ [l1, ''   Arquivo ONNX: 414.7 MB'', l3])
   \<and> import_error lib_all_ok ''torch'' = None
   \<and> import_error lib_all_ok ''transformers'' = None
   \<and> import_error lib_all_ok ''optimum'' = None
   \<and> map_of (results (snd (main lib_all_ok empty_world))) ''bert_ner'' = Some True"
proof -
  let ?w1 = "fetched ''bert-base-ner'' bert_ner_progress
                [(''vocab.txt'', File 1), (''model.onnx'', File 434865936)]"
  let ?w2 = "fetched ''distilbert-sentiment'' distilbert_progress
                [(''vocab.txt'', File 1), (''model.onnx'', File 434865936)]"
  have g: "\<forall>p\<in>set required. import_error lib_all_ok p = None"
    using all_ok_gate by (simp add: required_def)
  have d: "dir_st_size lib_all_ok = 4096"
    by (simp add: lib_all_ok_def fake_library_def)
  note t = size_is_printed_flag_is_recorded[of lib_all_ok empty_world]
  have c1: "fst (download_and_convert_bert_ner lib_all_ok empty_world) = Inr True
      \<and> (\<exists>l1 l3. console (snd (download_and_convert_bert_ner lib_all_ok empty_world)) = console ?w1 @
            [l1,
             ''   Arquivo ONNX: '' @
               format_mb (st_size (dir_st_size lib_all_ok) (fs ?w1)
                            (Path ''models/bert-base-ner'' @ [''model.onnx''])) @ '' MB'',
             l3])"
    using t[of ?w1] all_ok_bert_ner_fetch fetched_facts(1) by blast
  have c2: "fst (download_and_convert_distilbert_sentiment lib_all_ok empty_world) = Inr True
      \<and> (\<exists>l1 l3. console (snd (download_and_convert_distilbert_sentiment lib_all_ok empty_world)) =
            console ?w2 @
            [l1,
             ''   Arquivo ONNX: '' @
               format_mb (st_size (dir_st_size lib_all_ok) (fs ?w2)
                            (Path ''models/distilbert-sentiment'' @ [''model.onnx''])) @ '' MB'',
             l3])"
    using t[of ?w2] all_ok_distilbert_fetch fetched_facts(3) by blast
  have c3: "map_of (results (snd (main lib_all_ok empty_world))) ''bert_ner'' = Some True"
    using t[of ?w1] all_ok_bert_ner_fetch fetched_facts(1) g by blast
  have k1: "console ?w1 = bert_ner_progress" and k2: "console ?w2 = distilbert_progress"
    by (simp_all add: fetched_def)
  show ?thesis
    using c1 c2 c3 all_ok_gate all_ok_bert_ner_fetch all_ok_distilbert_fetch
    unfolding fetched_facts(11,12) k1 k2 format_mb_examples
    using fetched_facts(1,3) by simp
qed

text \<open>
  C8. When the library calls of a download function all return and \<open>model.onnx\<close> is
  in the output directory, the function returns \<open>True\<close> whether \<open>vocab.txt\<close> is there
  or not; the presence of \<open>vocab.txt\<close> only decides between the two marks at the end of
  the last line printed, \<open>Vocabulario:\<close>.
\<close>

theorem vocabulary_does_not_change_success:
  "(bert_ner_fetch lib w = (Inr (), w1)
      \<and> exists_path (fs w1) (Path ''models/bert-base-ner'' @ [''model.onnx''])
    \<longrightarrow> fst (download_and_convert_bert_ner lib w) = Inr True
      \<and> last (console (snd (download_and_convert_bert_ner lib w))) =
          ''   Vocabul'' @ a_acute @ ''rio: '' @
            (if exists_path (fs w1) (Path ''models/bert-base-ner'' @ [''vocab.txt''])
             then check_mark else cross_mark))
   \<and> (distilbert_fetch lib w = (Inr (), w1)
      \<and> exists_path (fs w1) (Path ''models/distilbert-sentiment'' @ [''model.onnx''])
    \<longrightarrow> fst (download_and_convert_distilbert_sentiment lib w) = Inr True
      \<and> last (console (snd (download_and_convert_distilbert_sentiment lib w))) =
          ''   Vocabul'' @ a_acute @ ''rio: '' @
            (if exists_path (fs w1) (Path ''models/distilbert-sentiment'' @ [''vocab.txt''])
             then check_mark else cross_mark))"
  by (simp add: bert_ner_present distilbert_present)

text \<open>C8 at a library that writes \<open>vocab.txt\<close> and at one that does not.\<close>

theorem vocabulary_does_not_change_success_witness:
  "bert_ner_fetch lib_all_ok empty_world =
     (Inr (), fetched ''bert-base-ner'' bert_ner_progress
                [(''vocab.txt'', File 1), (''model.onnx'', File 434865936)])
   \<and> fst (download_and_convert_bert_ner lib_all_ok empty_world) = Inr True
   \<and> last (console (snd (download_and_convert_bert_ner lib_all_ok empty_world))) =
        ''   Vocabul'' @ a_acute @ ''rio: '' @ check_mark
   \<and> bert_ner_fetch lib_empty_file empty_world =
     (Inr (), fetched ''bert-base-ner'' bert_ner_progress [(''model.onnx'', File 0)])
   \<and> fst (download_and_convert_bert_ner lib_empty_file empty_world) = Inr True
   \<and> last (console (snd (download_and_convert_bert_ner lib_empty_file empty_world))) =
        ''   Vocabul'' @ a_acute @ ''rio: '' @ cross_mark
   \<and> distilbert_fetch lib_all_ok empty_world =
     (Inr (), fetched ''distilbert-sentiment'' distilbert_progress
                [(''vocab.txt'', File 1), (''model.onnx'', File 434865936)])
   \<and> fst (download_and_convert_distilbert_sentiment lib_all_ok empty_world) = Inr True
   \<and> last (console (snd (download_and_convert_distilbert_sentiment lib_all_ok empty_world))) =
        ''   Vocabul'' @ a_acute @ ''rio: '' @ check_mark
   \<and> distilbert_fetch lib_empty_file empty_world =
     (Inr (), fetched ''distilbert-sentiment'' distilbert_progress [(''model.onnx'', File 0)])
   \<and> fst (download_and_convert_distilbert_sentiment lib_empty_file empty_world) = Inr True
   \<and> last (console (snd (download_and_convert_distilbert_sentiment lib_empty_file empty_world))) =
        ''   Vocabul'' @ a_acute @ ''rio: '' @ cross_mark"
proof -
  let ?a1 = "fetched ''bert-base-ner'' bert_ner_progress
                [(''vocab.txt'', File 1), (''model.onnx'', File 434865936)]"
  let ?a2 = "fetched ''distilbert-sentiment'' distilbert_progress
                [(''vocab.txt'', File 1), (''model.onnx'', File 434865936)]"
  let ?b1 = "fetched ''bert-base-ner'' bert_ner_progress [(''model.onnx'', File 0)]"
  let ?b2 = "fetched ''distilbert-sentiment'' distilbert_progress [(''model.onnx'', File 0)]"
  note ta = vocabulary_does_not_change_success[of lib_all_ok empty_world]
  note tb = vocabulary_does_not_change_success[of lib_empty_file empty_world]
  have a1: "fst (download_and_convert_bert_ner lib_all_ok empty_world) = Inr True
      \<and> last (console (snd (download_and_convert_bert_ner lib_all_ok empty_world))) =
          ''   Vocabul'' @ a_acute @ ''rio: '' @
            (if exists_path (fs ?a1) (Path ''models/bert-base-ner'' @ [''vocab.txt''])
             then check_mark else cross_mark)"
    using ta[of ?a1] all_ok_bert_ner_fetch fetched_facts(1) by blast
  have a2: "fst (download_and_convert_distilbert_sentiment lib_all_ok empty_world) = Inr True
      \<and> last (console (snd (download_and_convert_distilbert_sentiment lib_all_ok empty_world))) =
          ''   Vocabul'' @ a_acute @ ''rio: '' @
            (if exists_path (fs ?a2) (Path ''models/distilbert-sentiment'' @ [''vocab.txt''])
             then check_mark else cross_mark)"
    using ta[of ?a2] all_ok_distilbert_fetch fetched_facts(3) by blast
  have b1: "fst (download_and_convert_bert_ner lib_empty_file empty_world) = Inr True
      \<and> last (console (snd (download_and_convert_bert_ner lib_empty_file empty_world))) =
          ''   Vocabul'' @ a_acute @ ''rio: '' @
            (if exists_path (fs ?b1) (Path ''models/bert-base-ner'' @ [''vocab.txt''])
             then check_mark else cross_mark)"
    using tb[of ?b1] empty_file_bert_ner_fetch fetched_facts(5) by blast
  have b2: "fst (download_and_convert_distilbert_sentiment lib_empty_file empty_world) = Inr True
      \<and> last (console (snd (download_and_convert_distilbert_sentiment lib_empty_file empty_world))) =
          ''   Vocabul'' @ a_acute @ ''rio: '' @
            (if exists_path (fs ?b2) (Path ''models/distilbert-sentiment'' @ [''vocab.txt''])
             then check_mark else cross_mark)"
    using tb[of ?b2] empty_file_distilbert_fetch fetched_facts(7) by blast
  have v: "exists_path (fs ?a1) (Path ''models/bert-base-ner'' @ [''vocab.txt'']) = True"
    "exists_path (fs ?a2) (Path ''models/distilbert-sentiment'' @ [''vocab.txt'']) = True"
    "exists_path (fs ?b1) (Path ''models/bert-base-ner'' @ [''vocab.txt'']) = False"
    "exists_path (fs ?b2) (Path ''models/distilbert-sentiment'' @ [''vocab.txt'']) = False"
    using fetched_facts(2,4,6,8) by simp_all
  show ?thesis
    using a1 a2 b1 b2 all_ok_bert_ner_fetch all_ok_distilbert_fetch
      empty_file_bert_ner_fetch empty_file_distilbert_fetch
    unfolding v if_True if_False by blast
qed

text \<open>
  C9. Only the existence of \<open>model.onnx\<close> is checked: when the library calls all return
  and leave a \<open>model.onnx\<close> of zero bytes, the function returns \<open>True\<close> (and prints
  its size as \<open>0.0 MB\<close>), and \<open>main\<close> records \<open>True\<close> for it; this for each of the
  two download functions.
\<close>

theorem empty_model_file_is_success:
  "(bert_ner_fetch lib w = (Inr (), w1)
      \<and> lookup (fs w1) (Path ''models/bert-base-ner'' @ [''model.onnx'']) = Some (File 0)
    \<longrightarrow> fst (download_and_convert_bert_ner lib w) = Inr True
      \<and> (\<exists>l1 l3. console (snd (download_and_convert_bert_ner lib w)) =
            console w1 @ [l1, ''   Arquivo ONNX: 0.0 MB'', l3]))
   \<and> (distilbert_fetch lib w = (Inr (), w1)
      \<and> lookup (fs w1) (Path ''models/distilbert-sentiment'' @ [''model.onnx'']) = Some (File 0)
    \<longrightarrow> fst (download_and_convert_distilbert_sentiment lib w) = Inr True
      \<and> (\<exists>l1 l3. console (snd (download_and_convert_distilbert_sentiment lib w)) =
            console w1 @ [l1, ''   Arquivo ONNX: 0.0 MB'', l3]))
   \<and> ((\<forall>p\<in>set required. import_error lib p = None)
      \<and> bert_ner_fetch lib w = (Inr (), w1)
      \<and> lookup (fs w1) (Path ''models/bert-base-ner'' @ [''model.onnx'']) = Some (File 0)
    \<longrightarrow> map_of (results (snd (main lib w))) ''bert_ner'' = Some True)
   \<and> ((\<forall>p\<in>set required. import_error lib p = None)
      \<and> distilbert_fetch lib (snd (download_and_convert_bert_ner lib w)) = (Inr (), w1)
      \<and> lookup (fs w1) (Path ''models/distilbert-sentiment'' @ [''model.onnx'']) = Some (File 0)
    \<longrightarrow> map_of (results (snd (main lib w))) ''distilbert'' = Some True)"
proof (intro conjI impI)
  assume a: "bert_ner_fetch lib w = (Inr (), w1)
      \<and> lookup (fs w1) (Path ''models/bert-base-ner'' @ [''model.onnx'']) = Some (File 0)"
  then have e: "exists_path (fs w1) (Path ''models/bert-base-ner'' @ [''model.onnx''])"
    by (simp add: exists_path_def)
  show "fst (download_and_convert_bert_ner lib w) = Inr True"
    using a e by (simp add: bert_ner_present)
  show "\<exists>l1 l3. console (snd (download_and_convert_bert_ner lib w)) =
            console w1 @ [l1, ''   Arquivo ONNX: 0.0 MB'', l3]"
    using a e by (simp add: bert_ner_present st_size_def format_mb_examples)
next
  assume a: "distilbert_fetch lib w = (Inr (), w1)
      \<and> lookup (fs w1) (Path ''models/distilbert-sentiment'' @ [''model.onnx'']) = Some (File 0)"
  then have e: "exists_path (fs w1) (Path ''models/distilbert-sentiment'' @ [''model.onnx''])"
    by (simp add: exists_path_def)
  show "fst (download_and_convert_distilbert_sentiment lib w) = Inr True"
    using a e by (simp add: distilbert_present)
  show "\<exists>l1 l3. console (snd (download_and_convert_distilbert_sentiment lib w)) =
            console w1 @ [l1, ''   Arquivo ONNX: 0.0 MB'', l3]"
    using a e by (simp add: distilbert_present st_size_def format_mb_examples)
next
  assume a: "(\<forall>p\<in>set required. import_error lib p = None)
      \<and> bert_ner_fetch lib w = (Inr (), w1)
      \<and> lookup (fs w1) (Path ''models/bert-base-ner'' @ [''model.onnx'']) = Some (File 0)"
  then have e: "exists_path (fs w1) (Path ''models/bert-base-ner'' @ [''model.onnx''])"
    by (simp add: exists_path_def)
  with a have "fst (download_and_convert_bert_ner lib w) = Inr True"
    by (simp add: bert_ner_present)
  with a main_run[of lib w] show "map_of (results (snd (main lib w))) ''bert_ner'' = Some True"
    by auto
next
  assume a: "(\<forall>p\<in>set required. import_error lib p = None)
      \<and> distilbert_fetch lib (snd (download_and_convert_bert_ner lib w)) = (Inr (), w1)
      \<and> lookup (fs w1) (Path ''models/distilbert-sentiment'' @ [''model.onnx'']) = Some (File 0)"
  then have e: "exists_path (fs w1) (Path ''models/distilbert-sentiment'' @ [''model.onnx''])"
    by (simp add: exists_path_def)
  with a have "fst (download_and_convert_distilbert_sentiment lib
                      (snd (download_and_convert_bert_ner lib w))) = Inr True"
    by (simp add: distilbert_present)
  with a main_run[of lib w] show "map_of (results (snd (main lib w))) ''distilbert'' = Some True"
    by auto
qed

text \<open>C9 at the library that writes an empty \<open>model.onnx\<close>.\<close>

theorem empty_model_file_is_success_witness:
  "bert_ner_fetch lib_empty_file empty_world =
     (Inr (), fetched ''bert-base-ner'' bert_ner_progress [(''model.onnx'', File 0)])
   \<and> lookup (fs (fetched ''bert-base-ner'' bert_ner_progress [(''model.onnx'', File 0)]))
        (Path ''models/bert-base-ner'' @ [''model.onnx'']) = Some (File 0)
   \<and> fst (download_and_convert_bert_ner lib_empty_file empty_world) = Inr True
   \<and> (\<exists>l1 l3. console (snd (download_and_convert_bert_ner lib_empty_file empty_world)) =
          bert_ner_progress @ [l1, ''   Arquivo ONNX: 0.0 MB'', l3])
   \<and> distilbert_fetch lib_empty_file empty_world =
     (Inr (), fetched ''distilbert-sentiment'' distilbert_progress [(''model.onnx'', File 0)])
   \<and> lookup (fs (fetched ''distilbert-sentiment'' distilbert_progress [(''model.onnx'', File 0)]))
        (Path ''models/distilbert-sentiment'' @ [''model.onnx'']) = Some (File 0)
   \<and> fst (download_and_convert_distilbert_sentiment lib_empty_file empty_world) = Inr True
   \<and> (\<exists>l1 l3. console (snd (download_and_convert_distilbert_sentiment lib_empty_file empty_world)) =
          distilbert_progress @ [l1, ''   Arquivo ONNX: 0.0 MB'', l3])
   \<and> import_error lib_empty_file ''torch'' = None
   \<and> import_error lib_empty_file ''transformers'' = None
   \<and> import_error lib_empty_file ''optimum'' = None
   \<and> map_of (results (snd (main lib_empty_file empty_world))) ''bert_ner'' = Some True
   \<and> lookup (fs (snd (download_and_convert_distilbert_sentiment lib_empty_file
                         (snd (download_and_convert_bert_ner lib_empty_file empty_world)))))
        (Path ''models/distilbert-sentiment'' @ [''model.onnx'']) = Some (File 0)
   \<and> map_of (results (snd (main lib_empty_file empty_world))) ''distilbert'' = Some True"
proof -
  let ?b1 = "fetched ''bert-base-ner'' bert_ner_progress [(''model.onnx'', File 0)]"
  let ?b2 = "fetched ''distilbert-sentiment'' distilbert_progress [(''model.onnx'', File 0)]"
  let ?v1 = "snd (download_and_convert_bert_ner lib_empty_file empty_world)"
  let ?b3 = "?v1\<lparr>
        fs := Dir [(''models'',
                 Dir [(''bert-base-ner'', Dir [(''model.onnx'', File 0)]),
                      (''distilbert-sentiment'', Dir [(''model.onnx'', File 0)])])],
        console := console ?v1 @ distilbert_progress\<rparr>"
  have g: "\<forall>p\<in>set required. import_error lib_empty_file p = None"
    using empty_file_gate by (simp add: required_def)
  have f3: "distilbert_fetch lib_empty_file ?v1 = (Inr (), ?b3)"
    by (rule empty_file_distilbert_fetch_second) (simp add: empty_file_bert_ner)
  have l3: "lookup (fs ?b3) (Path ''models/distilbert-sentiment'' @ [''model.onnx'']) = Some (File 0)"
    by (simp add: Path_def)
  have l4: "lookup (fs (snd (download_and_convert_distilbert_sentiment lib_empty_file ?v1)))
        (Path ''models/distilbert-sentiment'' @ [''model.onnx'']) = Some (File 0)"
    unfolding distilbert_after_fetch[OF f3]
    by (simp add: distilbert_verify_eq exists_path_def Path_def)
  note t = empty_model_file_is_success[of lib_empty_file empty_world]
  have c1: "fst (download_and_convert_bert_ner lib_empty_file empty_world) = Inr True
      \<and> (\<exists>l1 l3. console (snd (download_and_convert_bert_ner lib_empty_file empty_world)) =
            console ?b1 @ [l1, ''   Arquivo ONNX: 0.0 MB'', l3])"
    using t[of ?b1] empty_file_bert_ner_fetch fetched_facts(9)[of bert_ner_progress 0] by blast
  have c2: "fst (download_and_convert_distilbert_sentiment lib_empty_file empty_world) = Inr True
      \<and> (\<exists>l1 l3. console (snd (download_and_convert_distilbert_sentiment lib_empty_file empty_world)) =
            console ?b2 @ [l1, ''   Arquivo ONNX: 0.0 MB'', l3])"
    using t[of ?b2] empty_file_distilbert_fetch fetched_facts(10)[of distilbert_progress 0] by blast
  have c3: "map_of (results (snd (main lib_empty_file empty_world))) ''bert_ner'' = Some True"
    using t[of ?b1] empty_file_bert_ner_fetch fetched_facts(9)[of bert_ner_progress 0] g by blast
  have c4: "map_of (results (snd (main lib_empty_file empty_world))) ''distilbert'' = Some True"
    using t[of ?b3] f3 l3 g by blast
  have k1: "console ?b1 = bert_ner_progress" and k2: "console ?b2 = distilbert_progress"
    by (simp_all add: fetched_def)
  show ?thesis
    using c1 c2 c3 c4 l4 empty_file_gate empty_file_bert_ner_fetch empty_file_distilbert_fetch
      fetched_facts(9)[of bert_ner_progress 0] fetched_facts(10)[of distilbert_progress 0]
    unfolding k1 k2 by blast
qed

section \<open>The claim about \<open>examples/integration/python_client.py\<close>\<close>

text \<open>
  C10. Every call of \<open>_send_request\<close> adds one to \<open>request_id\<close>, also for a method
  that starts with \<open>notifications/\<close>. The request built for such a method has no key
  \<open>id\<close>; the request built for any other method has the new value of the counter as
  its \<open>id\<close>. So the ids of the requests built one after the other are strictly
  increasing, and the counter ends at its start plus the number of calls.
\<close>

theorem request_ids_increase:
  "request_id (snd (send_request self method params)) = request_id self + 1
   \<and> (startswith method ''notifications/''
      \<longrightarrow> map_of (fst (send_request self method params)) ''id'' = None)
   \<and> (\<not> startswith method ''notifications/''
      \<longrightarrow> map_of (fst (send_request self method params)) ''id'' =
            Some (JInt (request_id self + 1)))
   \<and> sorted_wrt (<) (ids_of (fst (send_requests self todo)))
   \<and> request_id (snd (send_requests self todo)) = request_id self + int (length todo)"
  using send_request_id send_request_notification send_request_call send_requests_ids
  by blast

text \<open>
  C10 at a fresh client: a notification takes the id 2 and drops it, so the two other
  requests carry the ids 1 and 3.
\<close>

theorem request_ids_increase_witness:
  "request_id (snd (send_request (init_client ''./bin/nexs-mcp'')
                      ''notifications/initialized'' None)) = 1
   \<and> startswith ''notifications/initialized'' ''notifications/''
   \<and> map_of (fst (send_request (init_client ''./bin/nexs-mcp'')
                     ''notifications/initialized'' None)) ''id'' = None
   \<and> request_id (snd (send_request (init_client ''./bin/nexs-mcp'') ''tools/list'' None)) = 1
   \<and> \<not> startswith ''tools/list'' ''notifications/''
   \<and> map_of (fst (send_request (init_client ''./bin/nexs-mcp'') ''tools/list'' None)) ''id'' =
       Some (JInt 1)
   \<and> ids_of (fst (send_requests (init_client ''./bin/nexs-mcp'')
                     [(''tools/list'', None),
                      (''notifications/initialized'', None),
                      (''tools/call'', Some [(''name'', JStr ''list_elements''),
                                             (''arguments'', JObj [])])])) = [1, 3]
   \<and> sorted_wrt (<)
        (ids_of (fst (send_requests (init_client ''./bin/nexs-mcp'')
                     [(''tools/list'', None),
                      (''notifications/initialized'', None),
                      (''tools/call'', Some [(''name'', JStr ''list_elements''),
                                             (''arguments'', JObj [])])])))
   \<and> request_id (snd (send_requests (init_client ''./bin/nexs-mcp'')
                     [(''tools/list'', None),
                      (''notifications/initialized'', None),
                      (''tools/call'', Some [(''name'', JStr ''list_elements''),
                                             (''arguments'', JObj [])])])) = 3"
proof -
  let ?c = "init_client ''./bin/nexs-mcp''"
  let ?todo = "[(''tools/list'', None),
                (''notifications/initialized'', None),
                (''tools/call'', Some [(''name'', JStr ''list_elements''),
                                       (''arguments'', JObj [])])]"
  have n: "startswith ''notifications/initialized'' ''notifications/''"
    and m: "\<not> startswith ''tools/list'' ''notifications/''"
    by (simp_all add: startswith_def)
  have z: "request_id ?c = 0"
    by (simp add: init_client_def)
  have i: "ids_of (fst (send_requests ?c ?todo)) = [1, 3]"
    by (simp add: ids_of_def id_of_def List.map_filter_simps send_request_def next_id_def
          or_empty_def startswith_def init_client_def)
  show ?thesis
    using request_ids_increase[of ?c "''notifications/initialized''" None ?todo]
      request_ids_increase[of ?c "''tools/list''" None ?todo] n m i
    unfolding z by simp
qed

end
